theory Spec2Isabelle
  imports Complex_Main "HOL-Library.List_Lexorder" "HOL-Library.Char_ord"
    "HOL-Library.Product_Lexorder"
begin

section \<open>JavaScript values and strings\<close>

text \<open>
  A JavaScript number is a finite value, one of the two infinities, or NaN. Finite values
  are kept exact (rounding to the nearest double is not modelled); the handlers only ask
  whether a number is finite and how it compares with zero.
\<close>

datatype jsnum = Fin rat | PosInf | NegInf | NaN

text \<open>
  A value as \<open>JSON.parse\<close> produces it, plus \<open>undefined\<close> for a property that is absent.
\<close>

datatype jsval =
    JUndefined
  | JNull
  | JBool bool
  | JNumber jsnum
  | JString string
  | JArray "jsval list"
  | JObject "(string \<times> jsval) list"

text \<open>
  Property access \<open>payload.key\<close> on a parsed body. For duplicate keys \<open>JSON.parse\<close> keeps the
  last one. On \<open>null\<close> the access throws a TypeError, which the callers model themselves;
  on the other non-objects the properties read here are \<open>undefined\<close>.
\<close>

definition field :: "jsval \<Rightarrow> string \<Rightarrow> jsval" where
  "field v k = (case v of
      JObject kvs \<Rightarrow> (case map_of (rev kvs) k of Some x \<Rightarrow> x | None \<Rightarrow> JUndefined)
    | _ \<Rightarrow> JUndefined)"

text \<open>
  Strings are lists of code units below 256. The string functions below are those of
  ECMAScript on such text. White space is the class that \<open>trim\<close>, \<open>parseInt\<close> and the
  pattern \<open>\s\<close> share: tab to carriage return, the space and the no-break space. Letter
  case is that of Latin-1: \<open>toUpperCase\<close> turns the sharp s (223) into \<open>SS\<close>. The upper-case
  forms of the code units 181 and 255 are code units beyond 255, which these strings cannot
  hold; the two are left as they are.
\<close>

definition isWhiteSpace :: "char \<Rightarrow> bool" where
  "isWhiteSpace c = (let n = (of_char c :: nat) in (9 \<le> n \<and> n \<le> 13) \<or> n = 32 \<or> n = 160)"

definition trimStart :: "string \<Rightarrow> string" where
  "trimStart s = dropWhile isWhiteSpace s"

definition trimEnd :: "string \<Rightarrow> string" where
  "trimEnd s = rev (dropWhile isWhiteSpace (rev s))"

definition trim :: "string \<Rightarrow> string" where
  "trim s = trimEnd (trimStart s)"

definition upperChar :: "char \<Rightarrow> char" where
  "upperChar c = (let n = (of_char c :: nat) in
     if (97 \<le> n \<and> n \<le> 122) \<or> (224 \<le> n \<and> n \<le> 254 \<and> n \<noteq> 247)
     then char_of (n - 32) else c)"

definition upperUnits :: "char \<Rightarrow> string" where
  "upperUnits c = (if (of_char c :: nat) = 223 then ''SS'' else [upperChar c])"

definition lowerChar :: "char \<Rightarrow> char" where
  "lowerChar c = (let n = (of_char c :: nat) in
     if (65 \<le> n \<and> n \<le> 90) \<or> (192 \<le> n \<and> n \<le> 222 \<and> n \<noteq> 215)
     then char_of (n + 32) else c)"

definition toUpperCase :: "string \<Rightarrow> string" where
  "toUpperCase s = concat (map upperUnits s)"

definition toLowerCase :: "string \<Rightarrow> string" where
  "toLowerCase s = map lowerChar s"

definition startsWith :: "string \<Rightarrow> string \<Rightarrow> bool" where
  "startsWith s p = (take (length p) s = p)"

text \<open>The class \<open>[\s-]\<close> of the status pattern.\<close>

definition isSpaceOrHyphen :: "char \<Rightarrow> bool" where
  "isSpaceOrHyphen c = (isWhiteSpace c \<or> c = CHR ''-'')"

text \<open>
  \<open>s.replace(/[\s-]+/g, "_")\<close>: every maximal run of white space and hyphens becomes one
  underscore.
\<close>

function replaceSpaceHyphenRuns :: "string \<Rightarrow> string" where
  "replaceSpaceHyphenRuns [] = []"
| "replaceSpaceHyphenRuns (c # cs) =
     (if isSpaceOrHyphen c
      then CHR ''_'' # replaceSpaceHyphenRuns (dropWhile isSpaceOrHyphen cs)
      else c # replaceSpaceHyphenRuns cs)"
  by pat_completeness auto
termination
  by (relation "measure length") (auto simp: less_Suc_eq_le length_dropWhile_le)

text \<open>
  \<open>Number.parseInt(s, 10)\<close>: leading white space, an optional sign, then the longest run of
  decimal digits; no digit gives NaN. A magnitude that rounds beyond the largest double
  gives an infinity.
\<close>

definition isDigit :: "char \<Rightarrow> bool" where
  "isDigit c = (let n = (of_char c :: nat) in 48 \<le> n \<and> n \<le> 57)"

definition digitsValue :: "string \<Rightarrow> nat" where
  "digitsValue ds = foldl (\<lambda>acc c. 10 * acc + (of_char c - 48)) 0 ds"

definition toNumber :: "int \<Rightarrow> jsnum" where
  "toNumber i =
     (if i \<ge> 2 ^ 1024 - 2 ^ 970 then PosInf
      else if i \<le> - (2 ^ 1024 - 2 ^ 970) then NegInf
      else Fin (of_int i))"

definition parseInt10 :: "string \<Rightarrow> jsnum" where
  "parseInt10 s =
     (let t = trimStart s;
          neg = (case t of c # _ \<Rightarrow> c = CHR ''-'' | [] \<Rightarrow> False);
          r = (case t of c # cs \<Rightarrow> (if c = CHR ''-'' \<or> c = CHR ''+'' then cs else t) | [] \<Rightarrow> t);
          ds = takeWhile isDigit r
      in if ds = [] then NaN
         else toNumber ((if neg then - 1 else 1) * int (digitsValue ds)))"

definition isFinite :: "jsnum \<Rightarrow> bool" where
  "isFinite n = (case n of Fin _ \<Rightarrow> True | _ \<Rightarrow> False)"

text \<open>The comparisons \<open>n < 0\<close> and \<open>n <= 0\<close> on numbers; both are false for NaN.\<close>

definition jsLessZero :: "jsnum \<Rightarrow> bool" where
  "jsLessZero n = (case n of Fin r \<Rightarrow> r < 0 | NegInf \<Rightarrow> True | _ \<Rightarrow> False)"

definition jsLeZero :: "jsnum \<Rightarrow> bool" where
  "jsLeZero n = (case n of Fin r \<Rightarrow> r \<le> 0 | NegInf \<Rightarrow> True | _ \<Rightarrow> False)"

section \<open>Storage constants (lib/storage.ts)\<close>

definition PERMIT_FILES_BUCKET :: string where
  "PERMIT_FILES_BUCKET = ''permit-files''"

record PermitSourceFileMeta =
  bucket :: string
  path :: string
  contentType :: string
  name :: string
  fileSize :: jsnum

section \<open>Enumerations\<close>

text \<open>
  Modelled from the spec: the enumerations \<open>DocumentCategory\<close> and \<open>DocumentStatus\<close> are
  generated from the database schema, which is not among the sources. The values are those
  of the spec's data model, which are also the lists the dashboard offers.
\<close>

datatype DocumentCategory =
  PERMIT | LICENSE | INSPECTION | INSURANCE | REGISTRATION | CERTIFICATION | AGREEMENT | OTHER

datatype DocumentStatus =
  ACTIVE | PENDING_ACTIVATION | PENDING_RENEWAL | EXPIRED | INACTIVE

definition DocumentCategory_values :: "(string \<times> DocumentCategory) list" where
  "DocumentCategory_values =
     [(''PERMIT'', PERMIT), (''LICENSE'', LICENSE), (''INSPECTION'', INSPECTION),
      (''INSURANCE'', INSURANCE), (''REGISTRATION'', REGISTRATION),
      (''CERTIFICATION'', CERTIFICATION), (''AGREEMENT'', AGREEMENT), (''OTHER'', OTHER)]"

definition DocumentStatus_values :: "(string \<times> DocumentStatus) list" where
  "DocumentStatus_values =
     [(''ACTIVE'', ACTIVE), (''PENDING_ACTIVATION'', PENDING_ACTIVATION),
      (''PENDING_RENEWAL'', PENDING_RENEWAL), (''EXPIRED'', EXPIRED), (''INACTIVE'', INACTIVE)]"

section \<open>Field normalisation of the document routes\<close>

definition normalizeCategory :: "jsval \<Rightarrow> DocumentCategory" where
  "normalizeCategory v = (case v of
      JString s \<Rightarrow>
        (let normalized = toUpperCase (trim s)
         in case map_of DocumentCategory_values normalized of
              Some c \<Rightarrow> c
            | None \<Rightarrow> PERMIT)
    | _ \<Rightarrow> PERMIT)"

definition normalizeStatus :: "jsval \<Rightarrow> DocumentStatus" where
  "normalizeStatus v = (case v of
      JString s \<Rightarrow>
        (let normalized = replaceSpaceHyphenRuns (toUpperCase (trim s))
         in case map_of DocumentStatus_values normalized of
              Some c \<Rightarrow> c
            | None \<Rightarrow> ACTIVE)
    | _ \<Rightarrow> ACTIVE)"

text \<open>
  \<open>new Date(text)\<close> belongs to the runtime: \<open>dateParse\<close> is its result, \<open>None\<close> for an
  invalid date (one whose time value is NaN), and \<open>'d\<close> is the type of valid dates.
\<close>

definition parseDate :: "(string \<Rightarrow> 'd option) \<Rightarrow> jsval \<Rightarrow> 'd option" where
  "parseDate dateParse v = (case v of
      JString s \<Rightarrow>
        (let trimmed = trim s
         in if trimmed = [] then None else dateParse trimmed)
    | _ \<Rightarrow> None)"

text \<open>
  The extraction route's \<open>normalizeDate\<close>: the same tests, but the result is a string, the
  first ten characters of \<open>toISOString()\<close> or the empty string.
\<close>

definition normalizeDate :: "(string \<Rightarrow> 'd option) \<Rightarrow> ('d \<Rightarrow> string) \<Rightarrow> jsval \<Rightarrow> string" where
  "normalizeDate dateParse toISOString v = (case v of
      JString s \<Rightarrow>
        (let trimmed = trim s
         in if trimmed = [] then []
            else case dateParse trimmed of
                   None \<Rightarrow> []
                 | Some parsed \<Rightarrow> take 10 (toISOString parsed))
    | _ \<Rightarrow> [])"

section \<open>Source-file reconciliation of the document routes\<close>

datatype SourceFileDecision = Ignore | Clear | Set PermitSourceFileMeta

datatype SourceFilePayloadError = SourceFilePayloadError string nat

text \<open>
  The three values that \<open>resolveSourceFileDecision\<close> derives from the payload once the
  reference has passed: its constants \<open>contentType\<close>, \<open>name\<close> and \<open>numericSize\<close>.
\<close>

definition payloadContentType :: "jsval \<Rightarrow> string" where
  "payloadContentType payload =
     (case field payload ''sourceFileContentType'' of
        JString s \<Rightarrow> if length (trim s) > 0 then trim s else ''application/octet-stream''
      | _ \<Rightarrow> ''application/octet-stream'')"

definition payloadFileName :: "jsval \<Rightarrow> string" where
  "payloadFileName payload =
     (case field payload ''sourceFileName'' of
        JString s \<Rightarrow> if length (trim s) > 0 then trim s else ''permit-file''
      | _ \<Rightarrow> ''permit-file'')"

definition payloadNumericSize :: "jsval \<Rightarrow> jsnum" where
  "payloadNumericSize payload =
     (case field payload ''sourceFileSize'' of
        JNumber n \<Rightarrow> n
      | JString s \<Rightarrow> if length (trim s) > 0 then parseInt10 s else NaN
      | _ \<Rightarrow> NaN)"

definition resolveSourceFileDecision ::
  "jsval \<Rightarrow> string \<Rightarrow> SourceFilePayloadError + SourceFileDecision" where
  "resolveSourceFileDecision payload userId =
     (let keys = [field payload ''sourceFileBucket'', field payload ''sourceFilePath'',
                  field payload ''sourceFileContentType'', field payload ''sourceFileName'',
                  field payload ''sourceFileSize''];
          provided = list_ex (\<lambda>v. v \<noteq> JUndefined) keys
      in if \<not> provided then Inr Ignore
         else
           let b = field payload ''sourceFileBucket'';
               p = field payload ''sourceFilePath''
           in if b = JNull \<or> b = JString [] \<or> p = JNull \<or> p = JString [] then Inr Clear
              else case b of
                JString bucketStr \<Rightarrow>
                 (case p of
                    JString pathStr \<Rightarrow>
                      if bucketStr \<noteq> PERMIT_FILES_BUCKET \<or> \<not> startsWith pathStr (userId @ ''/'')
                      then Inl (SourceFilePayloadError ''Invalid source file reference'' 400)
                      else
                        let ct = payloadContentType payload;
                            nm = payloadFileName payload;
                            numericSize = payloadNumericSize payload
                        in if \<not> isFinite numericSize
                           then Inl (SourceFilePayloadError ''Invalid source file size'' 400)
                           else Inr (Set \<lparr>bucket = bucketStr, path = pathStr, contentType = ct,
                                           name = nm, fileSize = numericSize\<rparr>)
                  | _ \<Rightarrow> Inl (SourceFilePayloadError ''Invalid source file metadata'' 400))
              | _ \<Rightarrow> Inl (SourceFilePayloadError ''Invalid source file metadata'' 400))"

section \<open>Persistent state\<close>

text \<open>
  Modelled from the spec: the database schema is not among the sources. The tables and
  columns are those of the spec's data model, which are the ones the handlers read and
  write. Dates and timestamps are time values in milliseconds; a JSON column holds a
  \<open>jsval\<close>, with \<open>JNull\<close> for the database's JSON null.
\<close>

record User =
  user_id :: string
  user_email :: string
  user_name :: string
  user_phone :: "string option"

record Lookup =
  lookup_id :: int
  lookup_name :: string

record Business =
  business_id :: int
  business_userId :: string
  business_name :: string
  business_phone :: "string option"
  business_notes :: "string option"
  businessTypeId :: "int option"
  business_jurisdictionId :: "int option"
  business_createdAt :: int
  business_updatedAt :: int

record BusinessDocument =
  document_id :: int
  businessId :: int
  title :: string
  permitNumber :: "string option"
  documentCategory :: DocumentCategory
  status :: DocumentStatus
  startDate :: "int option"
  endDate :: "int option"
  autoRenew :: bool
  permitTypeId :: "int option"
  issuingAuthorityId :: "int option"
  jurisdictionId :: "int option"
  rawExtractionJson :: jsval
  sourceFileBucket :: "string option"
  sourceFilePath :: "string option"
  sourceFileContentType :: "string option"
  sourceFileName :: "string option"
  sourceFileSize :: "jsnum option"
  createdAt :: int
  updatedAt :: int

record Database =
  users :: "User list"
  businessTypes :: "Lookup list"
  jurisdictions :: "Lookup list"
  permitTypes :: "Lookup list"
  issuingAuthorities :: "Lookup list"
  businesses :: "Business list"
  businessDocuments :: "BusinessDocument list"

text \<open>
  The object-relational mapper, as far as the handlers use it: \<open>findFirst\<close> is the first
  row that satisfies the filter, \<open>create\<close> appends a row under a fresh key, \<open>update\<close>
  rewrites the row with the key. A route parameter is a number; it selects the row whose
  integer key it equals.
\<close>

definition nextId :: "int list \<Rightarrow> int" where
  "nextId ids = fold max ids 0 + 1"

definition idIs :: "jsnum \<Rightarrow> int \<Rightarrow> bool" where
  "idIs n i = (n = Fin (of_int i))"

definition findOrCreate :: "string \<Rightarrow> Lookup list \<Rightarrow> Lookup \<times> Lookup list" where
  "findOrCreate nm rows =
     (case find (\<lambda>r. lookup_name r = nm) rows of
        Some existing \<Rightarrow> (existing, rows)
      | None \<Rightarrow>
          (let created = \<lparr>lookup_id = nextId (map lookup_id rows), lookup_name = nm\<rparr>
           in (created, rows @ [created])))"

definition lookupName :: "Lookup list \<Rightarrow> int option \<Rightarrow> jsval" where
  "lookupName rows key =
     (case key of
        None \<Rightarrow> JNull
      | Some i \<Rightarrow> (case find (\<lambda>r. lookup_id r = i) rows of
                     Some r \<Rightarrow> JString (lookup_name r)
                   | None \<Rightarrow> JNull))"

section \<open>Runtime services and the session\<close>

text \<open>
  What the identity provider answers to \<open>auth.getUser()\<close>: a user or none, and an error or
  none. Of the user the handlers read the id, the email and two metadata entries.
\<close>

record SupabaseUser =
  su_id :: string
  su_email :: "string option"
  su_full_name :: jsval
  su_name :: jsval

record AuthResult =
  auth_user :: "SupabaseUser option"
  auth_error :: "string option"

text \<open>
  The services outside the repository that a handler calls: the session, the clock, the
  runtime's date, URI and encoding functions, the object store and the hosted model.
  \<open>download\<close> answers for a bucket and a path with the bytes, if it succeeds; \<open>upload\<close>
  answers for a path and a content type with the error message of a failed upload;
  \<open>completion\<close> answers for the current date and the data URL of the file with the content
  of the model's first choice, or throws; \<open>jsonParse\<close> is \<open>JSON.parse\<close>, \<open>None\<close> where it
  throws.
\<close>

datatype exn = TypeError | SyntaxError | Error string | PayloadError SourceFilePayloadError

record Runtime =
  getUser :: AuthResult
  now :: int
  dateParse :: "string \<Rightarrow> int option"
  toISOString :: "int \<Rightarrow> string"
  encodeURIComponent :: "string \<Rightarrow> string"
  typeErrorMessage :: string
  syntaxErrorMessage :: string
  randomUUID :: string
  download :: "string \<Rightarrow> string \<Rightarrow> string option"
  upload :: "string \<Rightarrow> string \<Rightarrow> string option"
  base64 :: "string \<Rightarrow> string"
  completion :: "string \<Rightarrow> string \<Rightarrow> exn + string option"
  jsonParse :: "string \<Rightarrow> jsval option"

datatype RequestBody = InvalidJson | Parsed jsval

datatype Response =
    JsonResponse nat jsval
  | FileResponse string "(string \<times> string) list"
  | Uncaught exn

definition errorJson :: "string \<Rightarrow> nat \<Rightarrow> Response" where
  "errorJson msg st = JsonResponse st (JObject [(''error'', JString msg)])"

definition message :: "Runtime \<Rightarrow> exn \<Rightarrow> string" where
  "message rt e = (case e of
      TypeError \<Rightarrow> typeErrorMessage rt
    | SyntaxError \<Rightarrow> syntaxErrorMessage rt
    | Error m \<Rightarrow> m
    | PayloadError (SourceFilePayloadError m _) \<Rightarrow> m)"

definition resolveErrorMessage :: "Runtime \<Rightarrow> exn \<Rightarrow> string \<Rightarrow> string" where
  "resolveErrorMessage rt e fallback = (if message rt e \<noteq> [] then message rt e else fallback)"

subsection \<open>Identity bridge (lib/ensure-profile.ts)\<close>

definition resolveName :: "SupabaseUser \<Rightarrow> string" where
  "resolveName user =
     (let fromFull = (case su_full_name user of JString s \<Rightarrow> trim s | _ \<Rightarrow> []);
          fromName = (case su_name user of JString s \<Rightarrow> trim s | _ \<Rightarrow> []);
          metadataName = (if fromFull \<noteq> [] then fromFull else fromName)
      in if length metadataName > 0 then metadataName
         else case su_email user of
                Some (c # cs) \<Rightarrow>
                  (let localPart = takeWhile (\<lambda>x. x \<noteq> CHR ''@'') (c # cs)
                   in toUpperCase (take 1 localPart) @ drop 1 localPart)
              | _ \<Rightarrow> ''Permit Buddy User'')"

definition ensureProfile :: "Database \<Rightarrow> SupabaseUser \<Rightarrow> User \<times> Database" where
  "ensureProfile db user =
     (let email = (case su_email user of Some e \<Rightarrow> e | None \<Rightarrow> []);
          nm = resolveName user
      in case find (\<lambda>u. user_id u = su_id user) (users db) of
           Some existing \<Rightarrow>
             (let row = existing\<lparr>user_email := email, user_name := nm\<rparr>
              in (row, db\<lparr>users := map (\<lambda>u. if user_id u = su_id user then row else u) (users db)\<rparr>))
         | None \<Rightarrow>
             (let row = \<lparr>user_id = su_id user, user_email = email, user_name = nm,
                         user_phone = None\<rparr>
              in (row, db\<lparr>users := users db @ [row]\<rparr>)))"

text \<open>
  \<open>resolveUser\<close> of the document routes (\<open>requireUser\<close> of the company routes is the same
  function): a provider error is thrown, no user is \<open>null\<close>, and a user is returned after
  the profile row has been written.
\<close>

definition resolveUser :: "Runtime \<Rightarrow> Database \<Rightarrow> exn + (SupabaseUser option \<times> Database)" where
  "resolveUser rt db =
     (case auth_error (getUser rt) of
        Some m \<Rightarrow> Inl (Error m)
      | None \<Rightarrow>
          (case auth_user (getUser rt) of
             None \<Rightarrow> Inr (None, db)
           | Some user \<Rightarrow> Inr (Some user, snd (ensureProfile db user))))"

section \<open>Document update (app/api/businesses/[id]/documents/[documentId]/route.ts)\<close>

definition parseId :: "jsnum \<Rightarrow> jsnum option" where
  "parseId numeric = (if \<not> isFinite numeric \<or> jsLeZero numeric then None else Some numeric)"

definition optDate :: "Runtime \<Rightarrow> int option \<Rightarrow> jsval" where
  "optDate rt d = (case d of Some t \<Rightarrow> JString (toISOString rt t) | None \<Rightarrow> JNull)"

definition optString :: "string option \<Rightarrow> jsval" where
  "optString s = (case s of Some t \<Rightarrow> JString t | None \<Rightarrow> JNull)"

definition optNumber :: "jsnum option \<Rightarrow> jsval" where
  "optNumber n = (case n of Some t \<Rightarrow> JNumber t | None \<Rightarrow> JNull)"

definition enumName :: "(string \<times> 'a) list \<Rightarrow> 'a \<Rightarrow> jsval" where
  "enumName table v =
     (case find (\<lambda>kv. snd kv = v) table of Some kv \<Rightarrow> JString (fst kv) | None \<Rightarrow> JNull)"

definition mapDocument :: "Runtime \<Rightarrow> Database \<Rightarrow> BusinessDocument \<Rightarrow> jsval" where
  "mapDocument rt db document = JObject
     [(''id'', JNumber (Fin (of_int (document_id document)))),
      (''businessId'', JNumber (Fin (of_int (businessId document)))),
      (''title'', JString (title document)),
      (''permitNumber'', optString (permitNumber document)),
      (''documentCategory'', enumName DocumentCategory_values (documentCategory document)),
      (''status'', enumName DocumentStatus_values (status document)),
      (''startDate'', optDate rt (startDate document)),
      (''endDate'', optDate rt (endDate document)),
      (''autoRenew'', JBool (autoRenew document)),
      (''createdAt'', JString (toISOString rt (createdAt document))),
      (''updatedAt'', JString (toISOString rt (updatedAt document))),
      (''issuingAuthorityName'', lookupName (issuingAuthorities db) (issuingAuthorityId document)),
      (''jurisdictionName'', lookupName (jurisdictions db) (jurisdictionId document)),
      (''rawExtractionJson'', rawExtractionJson document),
      (''sourceFileBucket'', optString (sourceFileBucket document)),
      (''sourceFilePath'', optString (sourceFilePath document)),
      (''sourceFileContentType'', optString (sourceFileContentType document)),
      (''sourceFileName'', optString (sourceFileName document)),
      (''sourceFileSize'', optNumber (sourceFileSize document))]"

definition trimmedString :: "jsval \<Rightarrow> string" where
  "trimmedString v = (case v of JString s \<Rightarrow> trim s | _ \<Rightarrow> [])"

definition nonblankString :: "jsval \<Rightarrow> string option" where
  "nonblankString v =
     (case v of JString s \<Rightarrow> if length (trim s) > 0 then Some (trim s) else None | _ \<Rightarrow> None)"

definition optionalLookup :: "string \<Rightarrow> Lookup list \<Rightarrow> Lookup option \<times> Lookup list" where
  "optionalLookup nm rows =
     (if nm \<noteq> [] then (Some (fst (findOrCreate nm rows)), snd (findOrCreate nm rows))
      else (None, rows))"

text \<open>
  The effect of \<open>updateData\<close> on the stored row, in the order the handler builds it: the
  columns of the object literal (and the update timestamp), then the assignments it makes
  under a condition.
\<close>

definition applySourceFileDecision :: "SourceFileDecision \<Rightarrow> BusinessDocument \<Rightarrow> BusinessDocument" where
  "applySourceFileDecision decision document =
     (case decision of
        Set v \<Rightarrow> document\<lparr>sourceFileBucket := Some (bucket v), sourceFilePath := Some (path v),
                           sourceFileContentType := Some (contentType v),
                           sourceFileName := Some (name v), sourceFileSize := Some (fileSize v)\<rparr>
      | Clear \<Rightarrow> document\<lparr>sourceFileBucket := None, sourceFilePath := None,
                           sourceFileContentType := None, sourceFileName := None,
                           sourceFileSize := None\<rparr>
      | Ignore \<Rightarrow> document)"

definition overwriteColumns :: "Runtime \<Rightarrow> jsval \<Rightarrow> string \<Rightarrow> BusinessDocument \<Rightarrow> BusinessDocument" where
  "overwriteColumns rt payload titleText document =
     document\<lparr>title := titleText,
        permitNumber := nonblankString (field payload ''permitNumber''),
        documentCategory := normalizeCategory (field payload ''documentCategory''),
        status := normalizeStatus (field payload ''status''),
        startDate := parseDate (dateParse rt) (field payload ''startDate''),
        endDate := parseDate (dateParse rt) (field payload ''endDate''),
        autoRenew := (field payload ''autoRenew'' = JBool True),
        updatedAt := now rt\<rparr>"

definition setRawExtraction :: "jsval \<Rightarrow> BusinessDocument \<Rightarrow> BusinessDocument" where
  "setRawExtraction payload document =
     (if field payload ''rawExtraction'' \<noteq> JUndefined
      then document\<lparr>rawExtractionJson := field payload ''rawExtraction''\<rparr>
      else document)"

definition setJurisdiction :: "string \<Rightarrow> Lookup option \<Rightarrow> BusinessDocument \<Rightarrow> BusinessDocument" where
  "setJurisdiction jurisdictionName jurisdiction document =
     (if jurisdictionName = [] then document\<lparr>jurisdictionId := None\<rparr>
      else case jurisdiction of
             Some j \<Rightarrow> document\<lparr>jurisdictionId := Some (lookup_id j)\<rparr>
           | None \<Rightarrow> document)"

definition setIssuingAuthority ::
  "string \<Rightarrow> Lookup option \<Rightarrow> BusinessDocument \<Rightarrow> BusinessDocument" where
  "setIssuingAuthority issuingAuthorityName issuingAuthority document =
     (if issuingAuthorityName = [] then document\<lparr>issuingAuthorityId := None\<rparr>
      else case issuingAuthority of
             Some a \<Rightarrow> document\<lparr>issuingAuthorityId := Some (lookup_id a)\<rparr>
           | None \<Rightarrow> document)"

definition applyDocumentUpdate ::
  "Runtime \<Rightarrow> jsval \<Rightarrow> string \<Rightarrow> string \<Rightarrow> Lookup option \<Rightarrow> string \<Rightarrow> Lookup option \<Rightarrow>
   SourceFileDecision \<Rightarrow> BusinessDocument \<Rightarrow> BusinessDocument" where
  "applyDocumentUpdate rt payload titleText jurisdictionName jurisdiction issuingAuthorityName
       issuingAuthority decision document =
     applySourceFileDecision decision
       (setIssuingAuthority issuingAuthorityName issuingAuthority
          (setJurisdiction jurisdictionName jurisdiction
             (setRawExtraction payload
                (overwriteColumns rt payload titleText document))))"

definition updateDocument ::
  "int \<Rightarrow> (BusinessDocument \<Rightarrow> BusinessDocument) \<Rightarrow> Database \<Rightarrow> Database" where
  "updateDocument key f db =
     db\<lparr>businessDocuments :=
          map (\<lambda>d. if document_id d = key then f d else d) (businessDocuments db)\<rparr>"

text \<open>The body of the handler's \<open>try\<close> block; \<open>Inl\<close> is a thrown exception.\<close>

definition PATCH_document_try ::
  "Runtime \<Rightarrow> Database \<Rightarrow> jsnum \<Rightarrow> jsnum \<Rightarrow> jsval \<Rightarrow> string \<Rightarrow> (exn + Response) \<times> Database" where
  "PATCH_document_try rt db businessIdN documentIdN payload titleText =
     (case resolveUser rt db of
        Inl e \<Rightarrow> (Inl e, db)
      | Inr (None, db1) \<Rightarrow> (Inr (errorJson ''Unauthorized'' 401), db1)
      | Inr (Some user, db1) \<Rightarrow>
          (case find (\<lambda>b. idIs businessIdN (business_id b) \<and> business_userId b = su_id user)
                  (businesses db1) of
             None \<Rightarrow> (Inr (errorJson ''Company not found'' 404), db1)
           | Some existingBusiness \<Rightarrow>
               (case find (\<lambda>d. idIs documentIdN (document_id d)
                                 \<and> businessId d = business_id existingBusiness)
                       (businessDocuments db1) of
                  None \<Rightarrow> (Inr (errorJson ''Permit not found'' 404), db1)
                | Some existingDocument \<Rightarrow>
                    (let jurisdictionName = trimmedString (field payload ''jurisdictionName'');
                         issuingAuthorityName = trimmedString (field payload ''issuingAuthorityName'')
                     in case resolveSourceFileDecision payload (su_id user) of
                          Inl err \<Rightarrow> (Inl (PayloadError err), db1)
                        | Inr decision \<Rightarrow>
                            (let (jurisdiction, js) = optionalLookup jurisdictionName (jurisdictions db1);
                                 (issuingAuthority, as) =
                                    optionalLookup issuingAuthorityName (issuingAuthorities db1);
                                 db2 = db1\<lparr>jurisdictions := js, issuingAuthorities := as\<rparr>;
                                 db3 = updateDocument (document_id existingDocument)
                                         (applyDocumentUpdate rt payload titleText jurisdictionName
                                            jurisdiction issuingAuthorityName issuingAuthority decision)
                                         db2
                             in case find (\<lambda>d. document_id d = document_id existingDocument)
                                       (businessDocuments db3) of
                                  Some updated \<Rightarrow>
                                    (Inr (JsonResponse 200 (mapDocument rt db3 updated)), db3)
                                | None \<Rightarrow> (Inl (Error ''Record to update not found''), db3))))))"

definition PATCH_document ::
  "Runtime \<Rightarrow> Database \<Rightarrow> jsnum \<Rightarrow> jsnum \<Rightarrow> RequestBody \<Rightarrow> Response \<times> Database" where
  "PATCH_document rt db idParam documentIdParam reqBody =
     (case (parseId idParam, parseId documentIdParam) of
        (Some businessIdN, Some documentIdN) \<Rightarrow>
          (case reqBody of
             InvalidJson \<Rightarrow> (errorJson ''Invalid JSON payload'' 400, db)
           | Parsed payload \<Rightarrow>
               if payload = JNull then (Uncaught TypeError, db)
               else
                 let titleText = trimmedString (field payload ''title'')
                 in if titleText = [] then (errorJson ''Permit title is required'' 400, db)
                    else
                      (case PATCH_document_try rt db businessIdN documentIdN payload titleText of
                         (Inr response, db') \<Rightarrow> (response, db')
                       | (Inl (PayloadError (SourceFilePayloadError m st)), db') \<Rightarrow>
                           (errorJson m st, db')
                       | (Inl e, db') \<Rightarrow>
                           (errorJson (resolveErrorMessage rt e ''Failed to update permit'') 500, db')))
      | _ \<Rightarrow> (errorJson ''Valid ids are required'' 400, db))"

text \<open>The stored source-file reference of a document: its five columns.\<close>

definition sourceFileReference ::
  "BusinessDocument \<Rightarrow> string option \<times> string option \<times> string option \<times> string option \<times> jsnum option" where
  "sourceFileReference d =
     (sourceFileBucket d, sourceFilePath d, sourceFileContentType d, sourceFileName d,
      sourceFileSize d)"

text \<open>A handler succeeded when it answered with JSON and status 200.\<close>

definition succeeded :: "Response \<Rightarrow> bool" where
  "succeeded r = (case r of JsonResponse st _ \<Rightarrow> st = 200 | _ \<Rightarrow> False)"

definition statusOf :: "Response \<Rightarrow> nat option" where
  "statusOf r = (case r of JsonResponse st _ \<Rightarrow> Some st | FileResponse _ _ \<Rightarrow> Some 200
                 | Uncaught _ \<Rightarrow> None)"

text \<open>The row update that a successful document update performs, from the payload and the
  state before.\<close>

definition documentUpdateOf ::
  "Runtime \<Rightarrow> Database \<Rightarrow> jsval \<Rightarrow> SourceFileDecision \<Rightarrow> BusinessDocument \<Rightarrow> BusinessDocument" where
  "documentUpdateOf rt db payload decision =
     applyDocumentUpdate rt payload (trimmedString (field payload ''title''))
       (trimmedString (field payload ''jurisdictionName''))
       (fst (optionalLookup (trimmedString (field payload ''jurisdictionName'')) (jurisdictions db)))
       (trimmedString (field payload ''issuingAuthorityName''))
       (fst (optionalLookup (trimmedString (field payload ''issuingAuthorityName''))
               (issuingAuthorities db)))
       decision"

section \<open>Document list and create (app/api/businesses/[id]/documents/route.ts)\<close>

definition requireBusiness :: "Database \<Rightarrow> string \<Rightarrow> jsnum \<Rightarrow> Business option" where
  "requireBusiness db userId businessIdN =
     find (\<lambda>b. idIs businessIdN (business_id b) \<and> business_userId b = userId) (businesses db)"

text \<open>
  \<open>findMany\<close> with \<open>orderBy: [{createdAt: "desc"}, {id: "desc"}]\<close>.
\<close>

definition documentsNewestFirst :: "BusinessDocument list \<Rightarrow> BusinessDocument list" where
  "documentsNewestFirst ds = rev (sort_key (\<lambda>d. (createdAt d, document_id d)) ds)"

definition GET_documents_try ::
  "Runtime \<Rightarrow> Database \<Rightarrow> jsnum \<Rightarrow> (exn + Response) \<times> Database" where
  "GET_documents_try rt db businessIdN =
     (case resolveUser rt db of
        Inl e \<Rightarrow> (Inl e, db)
      | Inr (None, db1) \<Rightarrow> (Inr (errorJson ''Unauthorized'' 401), db1)
      | Inr (Some user, db1) \<Rightarrow>
          (case requireBusiness db1 (su_id user) businessIdN of
             None \<Rightarrow> (Inr (errorJson ''Company not found'' 404), db1)
           | Some business \<Rightarrow>
               (let documents = documentsNewestFirst
                      (filter (\<lambda>d. businessId d = business_id business) (businessDocuments db1))
                in (Inr (JsonResponse 200 (JArray (map (mapDocument rt db1) documents))), db1))))"

definition GET_documents :: "Runtime \<Rightarrow> Database \<Rightarrow> jsnum \<Rightarrow> Response \<times> Database" where
  "GET_documents rt db idParam =
     (case parseId idParam of
        None \<Rightarrow> (errorJson ''A valid company id is required'' 400, db)
      | Some businessIdN \<Rightarrow>
          (case GET_documents_try rt db businessIdN of
             (Inr response, db') \<Rightarrow> (response, db')
           | (Inl e, db') \<Rightarrow>
               (errorJson (resolveErrorMessage rt e ''Failed to load permits'') 500, db')))"

definition nullish :: "jsval \<Rightarrow> bool" where
  "nullish v = (v = JUndefined \<or> v = JNull)"

definition newDocument ::
  "Runtime \<Rightarrow> Database \<Rightarrow> Business \<Rightarrow> jsval \<Rightarrow> string \<Rightarrow> Lookup option \<Rightarrow> Lookup option \<Rightarrow>
   SourceFileDecision \<Rightarrow> BusinessDocument" where
  "newDocument rt db business payload titleText jurisdiction issuingAuthority decision =
     \<lparr>document_id = nextId (map document_id (businessDocuments db)),
      businessId = business_id business,
      title = titleText,
      permitNumber = nonblankString (field payload ''permitNumber''),
      documentCategory = normalizeCategory (field payload ''documentCategory''),
      status = normalizeStatus (field payload ''status''),
      startDate = parseDate (dateParse rt) (field payload ''startDate''),
      endDate = parseDate (dateParse rt) (field payload ''endDate''),
      autoRenew = (field payload ''autoRenew'' = JBool True),
      permitTypeId = None,
      issuingAuthorityId = map_option lookup_id issuingAuthority,
      jurisdictionId = map_option lookup_id jurisdiction,
      rawExtractionJson = (if nullish (field payload ''rawExtraction'') then JNull
                           else field payload ''rawExtraction''),
      sourceFileBucket = (case decision of Set v \<Rightarrow> Some (bucket v) | _ \<Rightarrow> None),
      sourceFilePath = (case decision of Set v \<Rightarrow> Some (path v) | _ \<Rightarrow> None),
      sourceFileContentType = (case decision of Set v \<Rightarrow> Some (contentType v) | _ \<Rightarrow> None),
      sourceFileName = (case decision of Set v \<Rightarrow> Some (name v) | _ \<Rightarrow> None),
      sourceFileSize = (case decision of Set v \<Rightarrow> Some (fileSize v) | _ \<Rightarrow> None),
      createdAt = now rt,
      updatedAt = now rt\<rparr>"

definition POST_documents_try ::
  "Runtime \<Rightarrow> Database \<Rightarrow> jsnum \<Rightarrow> jsval \<Rightarrow> string \<Rightarrow> (exn + Response) \<times> Database" where
  "POST_documents_try rt db businessIdN payload titleText =
     (case resolveUser rt db of
        Inl e \<Rightarrow> (Inl e, db)
      | Inr (None, db1) \<Rightarrow> (Inr (errorJson ''Unauthorized'' 401), db1)
      | Inr (Some user, db1) \<Rightarrow>
          (case requireBusiness db1 (su_id user) businessIdN of
             None \<Rightarrow> (Inr (errorJson ''Company not found'' 404), db1)
           | Some business \<Rightarrow>
               (case resolveSourceFileDecision payload (su_id user) of
                  Inl err \<Rightarrow> (Inl (PayloadError err), db1)
                | Inr decision \<Rightarrow>
                    (let (jurisdiction, js) =
                            optionalLookup (trimmedString (field payload ''jurisdictionName''))
                              (jurisdictions db1);
                         (issuingAuthority, as) =
                            optionalLookup (trimmedString (field payload ''issuingAuthorityName''))
                              (issuingAuthorities db1);
                         db2 = db1\<lparr>jurisdictions := js, issuingAuthorities := as\<rparr>;
                         document = newDocument rt db2 business payload titleText jurisdiction
                                      issuingAuthority decision;
                         db3 = db2\<lparr>businessDocuments := businessDocuments db2 @ [document]\<rparr>
                     in (Inr (JsonResponse 201 (mapDocument rt db3 document)), db3)))))"

definition POST_documents ::
  "Runtime \<Rightarrow> Database \<Rightarrow> jsnum \<Rightarrow> RequestBody \<Rightarrow> Response \<times> Database" where
  "POST_documents rt db idParam reqBody =
     (case parseId idParam of
        None \<Rightarrow> (errorJson ''A valid company id is required'' 400, db)
      | Some businessIdN \<Rightarrow>
          (case reqBody of
             InvalidJson \<Rightarrow> (errorJson ''Invalid JSON payload'' 400, db)
           | Parsed payload \<Rightarrow>
               if payload = JNull then (Uncaught TypeError, db)
               else
                 let titleText = trimmedString (field payload ''title'')
                 in if titleText = [] then (errorJson ''Permit title is required'' 400, db)
                    else
                      (case POST_documents_try rt db businessIdN payload titleText of
                         (Inr response, db') \<Rightarrow> (response, db')
                       | (Inl (PayloadError (SourceFilePayloadError m st)), db') \<Rightarrow>
                           (errorJson m st, db')
                       | (Inl e, db') \<Rightarrow>
                           (errorJson (resolveErrorMessage rt e ''Failed to add permit'') 500, db'))))"

section \<open>Company routes (app/api/businesses/route.ts and app/api/businesses/[id]/route.ts)\<close>

definition mapBusiness :: "Runtime \<Rightarrow> Database \<Rightarrow> Business \<Rightarrow> jsval" where
  "mapBusiness rt db business = JObject
     [(''id'', JNumber (Fin (of_int (business_id business)))),
      (''userId'', JString (business_userId business)),
      (''name'', JString (business_name business)),
      (''phone'', optString (business_phone business)),
      (''notes'', optString (business_notes business)),
      (''businessTypeName'', lookupName (businessTypes db) (businessTypeId business)),
      (''jurisdictionName'', lookupName (jurisdictions db) (business_jurisdictionId business)),
      (''createdAt'', JString (toISOString rt (business_createdAt business))),
      (''updatedAt'', JString (toISOString rt (business_updatedAt business)))]"

definition nonemptyOption :: "string \<Rightarrow> string option" where
  "nonemptyOption s = (if length s > 0 then Some s else None)"

text \<open>
  \<open>findMany\<close> with \<open>orderBy: [{name: "asc"}, {createdAt: "asc"}]\<close>; names are compared by
  code unit, the database's collation is not modelled.
\<close>

definition businessesByName :: "Business list \<Rightarrow> Business list" where
  "businessesByName bs = sort_key (\<lambda>b. (business_name b, business_createdAt b)) bs"

definition GET_businesses :: "Runtime \<Rightarrow> Database \<Rightarrow> Response \<times> Database" where
  "GET_businesses rt db =
     (case resolveUser rt db of
        Inl e \<Rightarrow> (errorJson (resolveErrorMessage rt e ''Failed to load companies'') 500, db)
      | Inr (None, db1) \<Rightarrow> (errorJson ''Unauthorized'' 401, db1)
      | Inr (Some user, db1) \<Rightarrow>
          (JsonResponse 200
             (JArray (map (mapBusiness rt db1)
                (businessesByName (filter (\<lambda>b. business_userId b = su_id user) (businesses db1))))),
           db1))"

text \<open>
  The handlers below read the body inside their \<open>try\<close> block: a body that is not JSON and
  a \<open>null\<close> body are exceptions that the \<open>catch\<close> turns into a 500.
\<close>

definition bodyInTry :: "RequestBody \<Rightarrow> exn + jsval" where
  "bodyInTry reqBody = (case reqBody of
      InvalidJson \<Rightarrow> Inl SyntaxError
    | Parsed payload \<Rightarrow> if payload = JNull then Inl TypeError else Inr payload)"

definition POST_businesses :: "Runtime \<Rightarrow> Database \<Rightarrow> RequestBody \<Rightarrow> Response \<times> Database" where
  "POST_businesses rt db reqBody =
     (case resolveUser rt db of
        Inl e \<Rightarrow> (errorJson (resolveErrorMessage rt e ''Failed to add company'') 500, db)
      | Inr (None, db1) \<Rightarrow> (errorJson ''Unauthorized'' 401, db1)
      | Inr (Some user, db1) \<Rightarrow>
          (case bodyInTry reqBody of
             Inl e \<Rightarrow> (errorJson (resolveErrorMessage rt e ''Failed to add company'') 500, db1)
           | Inr payload \<Rightarrow>
               (let nm = trimmedString (field payload ''name'');
                    phone = trimmedString (field payload ''phone'');
                    notes = trimmedString (field payload ''notes'');
                    businessTypeName = trimmedString (field payload ''businessTypeName'');
                    jurisdictionName = trimmedString (field payload ''jurisdictionName'')
                in if nm = [] then (errorJson ''Company name is required'' 400, db1)
                   else
                     let (businessType, ts) = optionalLookup businessTypeName (businessTypes db1);
                         (jurisdiction, js) = optionalLookup jurisdictionName (jurisdictions db1);
                         db2 = db1\<lparr>businessTypes := ts, jurisdictions := js\<rparr>;
                         business =
                           \<lparr>business_id = nextId (map business_id (businesses db2)),
                            business_userId = su_id user,
                            business_name = nm,
                            business_phone = nonemptyOption phone,
                            business_notes = nonemptyOption notes,
                            businessTypeId = map_option lookup_id businessType,
                            business_jurisdictionId = map_option lookup_id jurisdiction,
                            business_createdAt = now rt,
                            business_updatedAt = now rt\<rparr>;
                         db3 = db2\<lparr>businesses := businesses db2 @ [business]\<rparr>
                     in (JsonResponse 201 (mapBusiness rt db3 business), db3))))"

text \<open>
  \<open>!businessId || Number.isNaN(businessId)\<close> for \<open>businessId = Number(params.id)\<close>.
\<close>

definition invalidBusinessId :: "jsnum \<Rightarrow> bool" where
  "invalidBusinessId n = (n = Fin 0 \<or> n = NaN)"





text \<open>
  Modelled from the spec: deleting a company removes its documents (the cascade is
  declared in the schema, which is not among the sources).
\<close>

definition deleteBusiness :: "jsnum \<Rightarrow> Database \<Rightarrow> Database" where
  "deleteBusiness key db =
     db\<lparr>businesses := filter (\<lambda>b. \<not> idIs key (business_id b)) (businesses db),
        businessDocuments := filter (\<lambda>d. \<not> idIs key (businessId d)) (businessDocuments db)\<rparr>"

definition DELETE_business :: "Runtime \<Rightarrow> Database \<Rightarrow> jsnum \<Rightarrow> Response \<times> Database" where
  "DELETE_business rt db idParam =
     (if invalidBusinessId idParam
      then (errorJson ''A valid business id is required'' 400, db)
      else case auth_error (getUser rt) of
             Some m \<Rightarrow>
               (errorJson (resolveErrorMessage rt (Error m) ''Failed to delete company'') 500, db)
           | None \<Rightarrow>
               (case auth_user (getUser rt) of
                  None \<Rightarrow> (errorJson ''Unauthorized'' 401, db)
                | Some user \<Rightarrow>
                    (let db1 = snd (ensureProfile db user)
                     in case find (\<lambda>b. idIs idParam (business_id b)
                                       \<and> business_userId b = su_id user) (businesses db1) of
                          None \<Rightarrow> (errorJson ''Company not found'' 404, db1)
                        | Some existing \<Rightarrow>
                            (JsonResponse 200 (JObject [(''success'', JBool True)]),
                             deleteBusiness idParam db1))))"


section \<open>Profile (app/api/profile/route.ts)\<close>

definition profileJson :: "jsval \<Rightarrow> jsval \<Rightarrow> jsval \<Rightarrow> jsval \<Rightarrow> jsval" where
  "profileJson i e n p = JObject [(''id'', i), (''email'', e), (''name'', n), (''phone'', p)]"

definition GET_profile :: "Runtime \<Rightarrow> Database \<Rightarrow> Response \<times> Database" where
  "GET_profile rt db =
     (case resolveUser rt db of
        Inl e \<Rightarrow> (errorJson (resolveErrorMessage rt e ''Failed to load profile'') 500, db)
      | Inr (None, db1) \<Rightarrow> (errorJson ''Unauthorized'' 401, db1)
      | Inr (Some user, db1) \<Rightarrow>
          (let profile = find (\<lambda>u. user_id u = su_id user) (users db1)
           in (JsonResponse 200
                 (profileJson (JString (su_id user))
                    (case su_email user of Some e \<Rightarrow> JString e | None \<Rightarrow> JUndefined)
                    (case profile of Some u \<Rightarrow> JString (user_name u) | None \<Rightarrow> JNull)
                    (case profile of Some u \<Rightarrow> optString (user_phone u) | None \<Rightarrow> JNull)),
               db1)))"

definition PATCH_profile :: "Runtime \<Rightarrow> Database \<Rightarrow> RequestBody \<Rightarrow> Response \<times> Database" where
  "PATCH_profile rt db reqBody =
     (case resolveUser rt db of
        Inl e \<Rightarrow> (errorJson (resolveErrorMessage rt e ''Failed to update profile'') 500, db)
      | Inr (None, db1) \<Rightarrow> (errorJson ''Unauthorized'' 401, db1)
      | Inr (Some user, db1) \<Rightarrow>
          (case bodyInTry reqBody of
             Inl e \<Rightarrow> (errorJson (resolveErrorMessage rt e ''Failed to update profile'') 500, db1)
           | Inr payload \<Rightarrow>
               (let nm = trimmedString (field payload ''name'');
                    phone = trimmedString (field payload ''phone'')
                in if nm = [] then (errorJson ''Name is required'' 400, db1)
                   else
                     case find (\<lambda>u. user_id u = su_id user) (users db1) of
                       None \<Rightarrow>
                         (errorJson (resolveErrorMessage rt (Error ''Record to update not found'')
                                       ''Failed to update profile'') 500, db1)
                     | Some existing \<Rightarrow>
                         (let updated = existing\<lparr>user_name := nm,
                                           user_phone := nonemptyOption phone,
                                           user_email := (case su_email user of Some e \<Rightarrow> e
                                                          | None \<Rightarrow> [])\<rparr>;
                              db2 = db1\<lparr>users := map (\<lambda>u. if user_id u = su_id user then updated
                                                           else u) (users db1)\<rparr>
                          in (JsonResponse 200
                                (profileJson (JString (user_id updated))
                                   (JString (user_email updated)) (JString (user_name updated))
                                   (optString (user_phone updated))),
                              db2)))))"

section \<open>File relay (app/api/businesses/[id]/documents/[documentId]/file/route.ts)\<close>






section \<open>Retired login endpoint (app/api/auth/login/route.ts)\<close>

definition POST_login :: "Database \<Rightarrow> Response \<times> Database" where
  "POST_login db =
     (errorJson ''This endpoint has been replaced by Supabase Auth.'' 410, db)"

section \<open>Extraction gateway (app/api/permits/route.ts)\<close>

record UploadedFile =
  file_name :: string
  file_type :: string
  file_size :: nat
  file_bytes :: string

text \<open>
  The multipart form: the file, and the five entries of an earlier reference. An entry is a
  string or is absent (an entry that is itself a file fails every \<open>typeof\<close> test as an absent
  one does).
\<close>

record ExtractForm =
  form_file :: "UploadedFile option"
  form_sourceFileBucket :: "string option"
  form_sourceFilePath :: "string option"
  form_sourceFileContentType :: "string option"
  form_sourceFileName :: "string option"
  form_sourceFileSize :: "string option"

definition normalizeBoolean :: "jsval \<Rightarrow> bool" where
  "normalizeBoolean v = (case v of
      JBool b \<Rightarrow> b
    | JString s \<Rightarrow>
        (let normalized = toLowerCase (trim s)
         in if normalized = ''true'' \<or> normalized = ''yes'' then True
            else if normalized = ''false'' \<or> normalized = ''no'' then False
            else False)
    | _ \<Rightarrow> False)"

definition sanitizeAscii :: "string \<Rightarrow> string" where
  "sanitizeAscii input = filter (\<lambda>c. 32 \<le> (of_char c :: nat) \<and> (of_char c :: nat) \<le> 126) input"

definition orElse :: "string \<Rightarrow> string \<Rightarrow> string" where
  "orElse a b = (if a \<noteq> [] then a else b)"

fun coalesce :: "jsval list \<Rightarrow> jsval" where
  "coalesce [] = JUndefined"
| "coalesce [v] = v"
| "coalesce (v # vs) = (if nullish v then coalesce vs else v)"

fun firstString :: "jsval list \<Rightarrow> string" where
  "firstString [] = []"
| "firstString (JString s # vs) = s"
| "firstString (v # vs) = firstString vs"

definition inferExtension :: "string \<Rightarrow> string" where
  "inferExtension fileName =
     (if fileName = [] then []
      else if CHR ''.'' \<notin> set fileName then []
      else let ext = rev (takeWhile (\<lambda>c. c \<noteq> CHR ''.'') (rev fileName))
           in if ext = [] then [] else CHR ''.'' # toLowerCase ext)"

datatype SourceFileError = SourceFileError string nat

definition resolveOrUploadSourceFile ::
  "Runtime \<Rightarrow> ExtractForm \<Rightarrow> string \<Rightarrow> UploadedFile \<Rightarrow> SourceFileError + PermitSourceFileMeta" where
  "resolveOrUploadSourceFile rt form userId file =
     (case (form_sourceFileBucket form, form_sourceFilePath form) of
        (Some existingBucket, Some existingPath) \<Rightarrow>
          if existingBucket \<noteq> PERMIT_FILES_BUCKET \<or> \<not> startsWith existingPath (userId @ ''/'')
          then Inl (SourceFileError ''Invalid source file reference'' 400)
          else
            let normalizedSize = (case form_sourceFileSize form of
                                    Some s \<Rightarrow> parseInt10 s | None \<Rightarrow> NaN)
            in Inr \<lparr>bucket = existingBucket, path = existingPath,
                    contentType =
                      (case form_sourceFileContentType form of
                         Some c \<Rightarrow> if length (trim c) > 0 then c
                                   else orElse (file_type file) ''application/octet-stream''
                       | None \<Rightarrow> orElse (file_type file) ''application/octet-stream''),
                    name =
                      (case form_sourceFileName form of
                         Some n \<Rightarrow> if length (trim n) > 0 then n
                                   else orElse (file_name file) ''permit-file''
                       | None \<Rightarrow> orElse (file_name file) ''permit-file''),
                    fileSize = (if isFinite normalizedSize then normalizedSize
                                else Fin (of_nat (file_size file)))\<rparr>
      | _ \<Rightarrow>
          (let extension = inferExtension (file_name file);
               objectPath = userId @ ''/'' @ take 10 (toISOString rt (now rt)) @ ''/''
                              @ randomUUID rt @ extension
           in case upload rt objectPath (orElse (file_type file) ''application/octet-stream'') of
                Some uploadErrorMessage \<Rightarrow>
                  Inl (SourceFileError (orElse uploadErrorMessage ''Failed to store uploaded file'') 500)
              | None \<Rightarrow>
                  Inr \<lparr>bucket = PERMIT_FILES_BUCKET, path = objectPath,
                       contentType = orElse (file_type file) ''application/octet-stream'',
                       name = orElse (file_name file) ''permit-file'',
                       fileSize = Fin (of_nat (file_size file))\<rparr>))"

definition sourceFileJson :: "PermitSourceFileMeta \<Rightarrow> jsval" where
  "sourceFileJson m = JObject
     [(''bucket'', JString (bucket m)), (''path'', JString (path m)),
      (''contentType'', JString (contentType m)), (''name'', JString (name m)),
      (''size'', JNumber (fileSize m))]"

text \<open>
  The fields the handler derives from the model's JSON object. The extraction route's own
  \<open>normalizeCategory\<close> and \<open>normalizeStatus\<close> are the functions of the document routes.
\<close>

definition extractedFields :: "Runtime \<Rightarrow> jsval \<Rightarrow> PermitSourceFileMeta \<Rightarrow> jsval" where
  "extractedFields rt parsed sourceFileMeta = JObject
     [(''title'', JString (trim (sanitizeAscii
         (firstString [field parsed ''title'', field parsed ''permit_title'', field parsed ''type''])))),
      (''permitNumber'', JString (trim (sanitizeAscii
         (firstString [field parsed ''permit_number'', field parsed ''number'',
                       field parsed ''permitNumber''])))),
      (''documentCategory'', enumName DocumentCategory_values (normalizeCategory
         (coalesce [field parsed ''document_category'', field parsed ''category'',
                    field parsed ''type'']))),
      (''status'', enumName DocumentStatus_values (normalizeStatus (field parsed ''status''))),
      (''startDate'', JString (normalizeDate (dateParse rt) (toISOString rt)
         (coalesce [field parsed ''start_date'', field parsed ''startDate'',
                    field parsed ''issued_date'', field parsed ''issue_date'']))),
      (''endDate'', JString (normalizeDate (dateParse rt) (toISOString rt)
         (coalesce [field parsed ''end_date'', field parsed ''endDate'',
                    field parsed ''expiration_date'', field parsed ''expiry_date'']))),
      (''autoRenew'', JBool (normalizeBoolean
         (coalesce [field parsed ''auto_renew'', field parsed ''autoRenew'']))),
      (''jurisdiction'', JString (trim (sanitizeAscii
         (firstString [field parsed ''jurisdiction'', field parsed ''jurisdictionName''])))),
      (''issuingAuthority'', JString (trim (sanitizeAscii
         (firstString [field parsed ''issuing_authority'', field parsed ''issuingAuthority''])))),
      (''rawFields'', parsed),
      (''sourceFile'', sourceFileJson sourceFileMeta)]"

definition isJsonObject :: "jsval \<Rightarrow> bool" where
  "isJsonObject v = (case v of JObject _ \<Rightarrow> True | _ \<Rightarrow> False)"

definition POST_permits :: "Runtime \<Rightarrow> Database \<Rightarrow> ExtractForm \<Rightarrow> Response \<times> Database" where
  "POST_permits rt db form =
     (case form_file form of
        None \<Rightarrow> (errorJson ''No file uploaded'' 400, db)
      | Some file \<Rightarrow>
          (case (auth_error (getUser rt), auth_user (getUser rt)) of
             (None, Some user) \<Rightarrow>
               (let dataUrl = ''data:'' @ file_type file @ '';base64,'' @ base64 rt (file_bytes file);
                    currentDate = take 10 (toISOString rt (now rt))
                in case resolveOrUploadSourceFile rt form (su_id user) file of
                     Inl (SourceFileError m st) \<Rightarrow> (errorJson m st, db)
                   | Inr sourceFileMeta \<Rightarrow>
                       (case completion rt currentDate dataUrl of
                          Inl e \<Rightarrow> (Uncaught e, db)
                        | Inr None \<Rightarrow> (errorJson ''No content returned from model'' 500, db)
                        | Inr (Some rawContent) \<Rightarrow>
                            if rawContent = []
                            then (errorJson ''No content returned from model'' 500, db)
                            else
                              (case jsonParse rt rawContent of
                                 None \<Rightarrow>
                                   (JsonResponse 500 (JObject
                                      [(''error'', JString (resolveErrorMessage rt SyntaxError
                                                              ''Failed to parse JSON from model'')),
                                       (''rawContent'', JString rawContent)]), db)
                               | Some parsed \<Rightarrow>
                                   if \<not> isJsonObject parsed
                                   then (JsonResponse 500 (JObject
                                           [(''error'', JString ''Model response was not an object''),
                                            (''rawContent'', JString rawContent)]), db)
                                   else (JsonResponse 200
                                           (extractedFields rt parsed sourceFileMeta), db))))
           | _ \<Rightarrow> (errorJson ''Unauthorized'' 401, db)))"

section \<open>Save from the upload form (app/api/permits/submit/route.ts)\<close>

text \<open>
  This handler is written against a typed payload and calls string methods without testing
  the type: \<open>v?.trim()\<close> is \<open>undefined\<close> for null and undefined, the trimmed text for a
  string, and a TypeError for any other value.
\<close>

definition optTrim :: "jsval \<Rightarrow> exn + string option" where
  "optTrim v = (case v of
      JUndefined \<Rightarrow> Inr None
    | JNull \<Rightarrow> Inr None
    | JString s \<Rightarrow> Inr (Some (trim s))
    | _ \<Rightarrow> Inl TypeError)"

definition truthy :: "jsval \<Rightarrow> bool" where
  "truthy v = (case v of
      JUndefined \<Rightarrow> False
    | JNull \<Rightarrow> False
    | JBool b \<Rightarrow> b
    | JNumber n \<Rightarrow> n \<noteq> Fin 0 \<and> n \<noteq> NaN
    | JString s \<Rightarrow> s \<noteq> []
    | _ \<Rightarrow> True)"

definition deriveNameFromEmail :: "string \<Rightarrow> string" where
  "deriveNameFromEmail email =
     (let localPart = takeWhile (\<lambda>c. c \<noteq> CHR ''@'') email;
          trimmed = trim localPart
      in if trimmed = [] then ''Permit Buddy User''
         else toUpperCase (take 1 trimmed) @ drop 1 trimmed)"

definition normalizeCategorySubmit :: "jsval \<Rightarrow> exn + DocumentCategory" where
  "normalizeCategorySubmit v =
     (case optTrim v of
        Inl e \<Rightarrow> Inl e
      | Inr None \<Rightarrow> Inr PERMIT
      | Inr (Some t) \<Rightarrow>
          (case map_of DocumentCategory_values (toUpperCase t) of
             Some c \<Rightarrow> Inr c
           | None \<Rightarrow> Inr PERMIT))"

definition normalizeStatusSubmit :: "jsval \<Rightarrow> exn + DocumentStatus" where
  "normalizeStatusSubmit v =
     (case optTrim v of
        Inl e \<Rightarrow> Inl e
      | Inr None \<Rightarrow> Inr ACTIVE
      | Inr (Some t) \<Rightarrow>
          (case map_of DocumentStatus_values (replaceSpaceHyphenRuns (toUpperCase t)) of
             Some c \<Rightarrow> Inr c
           | None \<Rightarrow> Inr ACTIVE))"

definition parseInputDate :: "(string \<Rightarrow> 'd option) \<Rightarrow> jsval \<Rightarrow> exn + 'd option" where
  "parseInputDate parse v =
     (if \<not> truthy v then Inr None
      else case v of
             JString s \<Rightarrow>
               (let trimmed = trim s
                in if trimmed = [] then Inr None else Inr (parse trimmed))
           | _ \<Rightarrow> Inl TypeError)"

text \<open>
  \<open>x && x.trim().length > 0 ? x.trim() : fallback\<close> for a payload entry \<open>x\<close>.
\<close>

definition trimmedOr :: "jsval \<Rightarrow> string \<Rightarrow> exn + string" where
  "trimmedOr v fallback =
     (if \<not> truthy v then Inr fallback
      else case v of
             JString s \<Rightarrow> Inr (if length (trim s) > 0 then trim s else fallback)
           | _ \<Rightarrow> Inl TypeError)"

definition resolveSourceFileMetadata :: "jsval \<Rightarrow> string \<Rightarrow> exn + PermitSourceFileMeta option" where
  "resolveSourceFileMetadata payload userId =
     (case optTrim (field payload ''sourceFileBucket'') of
        Inl e \<Rightarrow> Inl e
      | Inr b \<Rightarrow>
     (case optTrim (field payload ''sourceFilePath'') of
        Inl e \<Rightarrow> Inl e
      | Inr p \<Rightarrow>
     (case (b, p) of
        (Some bucketStr, Some pathStr) \<Rightarrow>
          if bucketStr = [] \<or> pathStr = [] then Inr None
          else if bucketStr \<noteq> PERMIT_FILES_BUCKET \<or> \<not> startsWith pathStr (userId @ ''/'')
          then Inl (PayloadError (SourceFilePayloadError ''Invalid source file reference'' 400))
          else
            (case trimmedOr (field payload ''sourceFileContentType'') ''application/octet-stream'' of
               Inl e \<Rightarrow> Inl e
             | Inr ct \<Rightarrow>
            (case trimmedOr (field payload ''sourceFileName'') ''Permit file'' of
               Inl e \<Rightarrow> Inl e
             | Inr nm \<Rightarrow>
                 (let numericSize = (case field payload ''sourceFileSize'' of
                          JNumber n \<Rightarrow> n
                        | JString s \<Rightarrow> if length (trim s) > 0 then parseInt10 s else Fin 0
                        | _ \<Rightarrow> Fin 0)
                  in if \<not> isFinite numericSize \<or> jsLessZero numericSize
                     then Inl (PayloadError (SourceFilePayloadError ''Invalid source file size'' 400))
                     else Inr (Some \<lparr>bucket = bucketStr, path = pathStr, contentType = ct,
                                      name = nm, fileSize = numericSize\<rparr>))))
      | _ \<Rightarrow> Inr None)))"

definition namedLookup :: "string option \<Rightarrow> Lookup list \<Rightarrow> Lookup option \<times> Lookup list" where
  "namedLookup nm rows = (case nm of Some n \<Rightarrow> optionalLookup n rows | None \<Rightarrow> (None, rows))"

text \<open>\<open>row?.id || null\<close> and \<open>!column\<close> for a key column.\<close>

definition truthyId :: "Lookup option \<Rightarrow> int option" where
  "truthyId r = (case r of Some x \<Rightarrow> if lookup_id x \<noteq> 0 then Some (lookup_id x) else None
                 | None \<Rightarrow> None)"

definition unsetId :: "int option \<Rightarrow> bool" where
  "unsetId k = (k = None \<or> k = Some 0)"

definition findOrCreateBusinessByName ::
  "Runtime \<Rightarrow> Database \<Rightarrow> string \<Rightarrow> string \<Rightarrow> Lookup option \<Rightarrow> Lookup option \<Rightarrow>
   Business \<times> Database" where
  "findOrCreateBusinessByName rt db businessName userId businessType jurisdiction =
     (case find (\<lambda>b. business_name b = businessName \<and> business_userId b = userId)
             (businesses db) of
        None \<Rightarrow>
          (let created = \<lparr>business_id = nextId (map business_id (businesses db)),
                           business_userId = userId, business_name = businessName,
                           business_phone = None, business_notes = None,
                           businessTypeId = truthyId businessType,
                           business_jurisdictionId = truthyId jurisdiction,
                           business_createdAt = now rt, business_updatedAt = now rt\<rparr>
           in (created, db\<lparr>businesses := businesses db @ [created]\<rparr>))
      | Some business \<Rightarrow>
          (let setType = (unsetId (businessTypeId business) \<and> truthyId businessType \<noteq> None);
               setJurisdiction = (unsetId (business_jurisdictionId business)
                                  \<and> truthyId jurisdiction \<noteq> None)
           in if setType \<or> setJurisdiction
              then
                (let updated = business\<lparr>
                       businessTypeId := (if setType then truthyId businessType
                                          else businessTypeId business),
                       business_jurisdictionId := (if setJurisdiction then truthyId jurisdiction
                                                   else business_jurisdictionId business),
                       business_updatedAt := now rt\<rparr>
                 in (updated,
                     db\<lparr>businesses := map (\<lambda>b. if business_id b = business_id business
                                                then updated else b) (businesses db)\<rparr>))
              else (business, db)))"

definition submittedDocumentJson :: "Runtime \<Rightarrow> Database \<Rightarrow> Business \<Rightarrow> BusinessDocument \<Rightarrow> jsval" where
  "submittedDocumentJson rt db business document = JObject
     [(''document'', JObject
        [(''id'', JNumber (Fin (of_int (document_id document)))),
         (''businessId'', JNumber (Fin (of_int (businessId document)))),
         (''documentCategory'', enumName DocumentCategory_values (documentCategory document)),
         (''permitTypeId'', (case permitTypeId document of Some i \<Rightarrow> JNumber (Fin (of_int i))
                             | None \<Rightarrow> JNull)),
         (''issuingAuthorityId'', (case issuingAuthorityId document of
                                     Some i \<Rightarrow> JNumber (Fin (of_int i)) | None \<Rightarrow> JNull)),
         (''jurisdictionId'', (case jurisdictionId document of
                                 Some i \<Rightarrow> JNumber (Fin (of_int i)) | None \<Rightarrow> JNull)),
         (''title'', JString (title document)),
         (''permitNumber'', optString (permitNumber document)),
         (''startDate'', optDate rt (startDate document)),
         (''endDate'', optDate rt (endDate document)),
         (''autoRenew'', JBool (autoRenew document)),
         (''status'', enumName DocumentStatus_values (status document)),
         (''rawExtractionJson'', rawExtractionJson document),
         (''sourceFileBucket'', optString (sourceFileBucket document)),
         (''sourceFilePath'', optString (sourceFilePath document)),
         (''sourceFileContentType'', optString (sourceFileContentType document)),
         (''sourceFileName'', optString (sourceFileName document)),
         (''sourceFileSize'', optNumber (sourceFileSize document)),
         (''createdAt'', JString (toISOString rt (createdAt document))),
         (''updatedAt'', JString (toISOString rt (updatedAt document))),
         (''business'', mapBusiness rt db business),
         (''permitType'', lookupName (permitTypes db) (permitTypeId document)),
         (''jurisdiction'', lookupName (jurisdictions db) (jurisdictionId document)),
         (''issuingAuthority'', lookupName (issuingAuthorities db) (issuingAuthorityId document))])]"

definition nonemptyName :: "string option \<Rightarrow> string option" where
  "nonemptyName nm = (case nm of Some n \<Rightarrow> if n \<noteq> [] then Some n else None | None \<Rightarrow> None)"

definition handleSave ::
  "Runtime \<Rightarrow> Database \<Rightarrow> jsval \<Rightarrow> string \<Rightarrow> string \<Rightarrow> DocumentCategory \<Rightarrow> DocumentStatus \<Rightarrow>
   bool \<Rightarrow> string \<Rightarrow> (exn + Response) \<times> Database" where
  "handleSave rt db payload businessName documentTitle category documentStatus renew userId =
     (case optTrim (field payload ''businessTypeName'') of
        Inl e \<Rightarrow> (Inl e, db)
      | Inr businessTypeName \<Rightarrow>
     (case optTrim (field payload ''jurisdictionName'') of
        Inl e \<Rightarrow> (Inl e, db)
      | Inr jurisdictionName \<Rightarrow>
     (case optTrim (field payload ''permitTypeName'') of
        Inl e \<Rightarrow> (Inl e, db)
      | Inr permitTypeName \<Rightarrow>
     (case optTrim (field payload ''issuingAuthorityName'') of
        Inl e \<Rightarrow> (Inl e, db)
      | Inr issuingAuthorityName \<Rightarrow>
     (case resolveSourceFileMetadata payload userId of
        Inl e \<Rightarrow> (Inl e, db)
      | Inr sourceFileMeta \<Rightarrow>
          (let (businessType, ts) = namedLookup (nonemptyName businessTypeName) (businessTypes db);
               (jurisdiction, js) = namedLookup (nonemptyName jurisdictionName) (jurisdictions db);
               (permitType, ps) = namedLookup (nonemptyName permitTypeName) (permitTypes db);
               (issuingAuthority, as) =
                  namedLookup (nonemptyName issuingAuthorityName) (issuingAuthorities db);
               db1 = db\<lparr>businessTypes := ts, jurisdictions := js, permitTypes := ps,
                        issuingAuthorities := as\<rparr>;
               (business, db2) = findOrCreateBusinessByName rt db1 businessName userId
                                   businessType jurisdiction
           in case parseInputDate (dateParse rt) (field payload ''startDate'') of
                Inl e \<Rightarrow> (Inl e, db2)
              | Inr start \<Rightarrow>
             (case parseInputDate (dateParse rt) (field payload ''endDate'') of
                Inl e \<Rightarrow> (Inl e, db2)
              | Inr finish \<Rightarrow>
             (case optTrim (field payload ''permitNumber'') of
                Inl e \<Rightarrow> (Inl e, db2)
              | Inr number \<Rightarrow>
                  (let document =
                         \<lparr>document_id = nextId (map document_id (businessDocuments db2)),
                          businessId = business_id business,
                          title = documentTitle,
                          permitNumber = nonemptyName number,
                          documentCategory = category,
                          status = documentStatus,
                          startDate = start,
                          endDate = finish,
                          autoRenew = renew,
                          permitTypeId = map_option lookup_id permitType,
                          issuingAuthorityId = map_option lookup_id issuingAuthority,
                          jurisdictionId = map_option lookup_id jurisdiction,
                          rawExtractionJson =
                            (if nullish (field payload ''rawExtraction'') then JNull
                             else field payload ''rawExtraction''),
                          sourceFileBucket = map_option bucket sourceFileMeta,
                          sourceFilePath = map_option path sourceFileMeta,
                          sourceFileContentType = map_option contentType sourceFileMeta,
                          sourceFileName = map_option name sourceFileMeta,
                          sourceFileSize = map_option fileSize sourceFileMeta,
                          createdAt = now rt,
                          updatedAt = now rt\<rparr>;
                       db3 = db2\<lparr>businessDocuments := businessDocuments db2 @ [document]\<rparr>
                   in (Inr (JsonResponse 201 (submittedDocumentJson rt db3 business document)),
                       db3))))))))))"

text \<open>
  The \<open>try\<close> block of the handler. Without a session user the handler falls back on the
  payload's \<open>userEmail\<close>: the user with that email, or a new one.
\<close>

definition POST_submit_try ::
  "Runtime \<Rightarrow> Database \<Rightarrow> jsval \<Rightarrow> string \<Rightarrow> string \<Rightarrow> DocumentCategory \<Rightarrow> DocumentStatus \<Rightarrow>
   bool \<Rightarrow> (exn + Response) \<times> Database" where
  "POST_submit_try rt db payload businessName documentTitle category documentStatus renew =
     (case auth_error (getUser rt) of
        Some m \<Rightarrow> (Inl (Error m), db)
      | None \<Rightarrow>
          (case auth_user (getUser rt) of
             Some supabaseUser \<Rightarrow>
               (let (resolvedUser, db1) = ensureProfile db supabaseUser
                in handleSave rt db1 payload businessName documentTitle category documentStatus
                     renew (user_id resolvedUser))
           | None \<Rightarrow>
               (case optTrim (field payload ''userEmail'') of
                  Inl e \<Rightarrow> (Inl e, db)
                | Inr email \<Rightarrow>
                    (case nonemptyName (map_option toLowerCase email) of
                       None \<Rightarrow> (Inr (errorJson ''Unauthorized'' 401), db)
                     | Some userEmail \<Rightarrow>
                         (case find (\<lambda>u. user_email u = userEmail) (users db) of
                            Some resolvedUser \<Rightarrow>
                              handleSave rt db payload businessName documentTitle category
                                documentStatus renew (user_id resolvedUser)
                          | None \<Rightarrow>
                              (let resolvedUser =
                                     \<lparr>user_id = randomUUID rt, user_email = userEmail,
                                      user_name = deriveNameFromEmail userEmail,
                                      user_phone = None\<rparr>
                               in handleSave rt (db\<lparr>users := users db @ [resolvedUser]\<rparr>) payload
                                    businessName documentTitle category documentStatus renew
                                    (user_id resolvedUser)))))))"

definition POST_submit :: "Runtime \<Rightarrow> Database \<Rightarrow> RequestBody \<Rightarrow> Response \<times> Database" where
  "POST_submit rt db reqBody =
     (case reqBody of
        InvalidJson \<Rightarrow> (errorJson ''Invalid JSON payload'' 400, db)
      | Parsed payload \<Rightarrow>
          if payload = JNull then (Uncaught TypeError, db)
          else
     (case optTrim (field payload ''businessName'') of
        Inl e \<Rightarrow> (Uncaught e, db)
      | Inr businessName \<Rightarrow>
     (case nonemptyName businessName of
        None \<Rightarrow> (errorJson ''Business name is required'' 400, db)
      | Some bn \<Rightarrow>
     (case optTrim (field payload ''title'') of
        Inl e \<Rightarrow> (Uncaught e, db)
      | Inr t \<Rightarrow>
     (case normalizeCategorySubmit (field payload ''documentCategory'') of
        Inl e \<Rightarrow> (Uncaught e, db)
      | Inr category \<Rightarrow>
     (case normalizeStatusSubmit (field payload ''status'') of
        Inl e \<Rightarrow> (Uncaught e, db)
      | Inr documentStatus \<Rightarrow>
          (let documentTitle = (case nonemptyName t of Some s \<Rightarrow> s | None \<Rightarrow> ''Untitled document'');
               renew = (field payload ''autoRenew'' = JBool True)
           in case POST_submit_try rt db payload bn documentTitle category documentStatus renew of
                (Inr response, db') \<Rightarrow> (response, db')
              | (Inl (PayloadError (SourceFilePayloadError m st)), db') \<Rightarrow> (errorJson m 400, db')
              | (Inl e, db') \<Rightarrow> (errorJson ''Failed to save document'' 500, db'))))))))"

section \<open>Sample data\<close>

text \<open>
  A small database, a runtime with a signed-in user and one without a session, and a few
  payloads, for the instances that follow the theorems.
\<close>

definition sampleUser :: SupabaseUser where
  "sampleUser = \<lparr>su_id = ''u1'', su_email = Some ''ann@example.org'',
                  su_full_name = JUndefined, su_name = JUndefined\<rparr>"

definition sampleRuntime :: Runtime where
  "sampleRuntime =
     \<lparr>getUser = \<lparr>auth_user = Some sampleUser, auth_error = None\<rparr>,
      now = 1000,
      dateParse = (\<lambda>s. if s = ''2025-01-01'' then Some 500 else None),
      toISOString = (\<lambda>t. if t = 500 then ''2025-01-01T00:00:00.000Z''
                           else ''1970-01-01T00:00:00.000Z''),
      encodeURIComponent = (\<lambda>s. s),
      typeErrorMessage = ''not a function'',
      syntaxErrorMessage = ''Unexpected token'',
      randomUUID = ''00000000-0000-4000-8000-000000000000'',
      download = (\<lambda>b p. if b = ''permit-files'' \<and> p = ''u1/a.pdf'' then Some ''%PDF'' else None),
      upload = (\<lambda>p c. None),
      base64 = (\<lambda>s. s),
      completion = (\<lambda>d u. Inr None),
      jsonParse = (\<lambda>s. None)\<rparr>"

definition anonymousRuntime :: Runtime where
  "anonymousRuntime = sampleRuntime\<lparr>getUser := \<lparr>auth_user = None, auth_error = None\<rparr>\<rparr>"

definition failingRuntime :: Runtime where
  "failingRuntime =
     sampleRuntime\<lparr>getUser := \<lparr>auth_user = None, auth_error = Some ''invalid JWT''\<rparr>\<rparr>"

definition sampleBusiness :: Business where
  "sampleBusiness =
     \<lparr>business_id = 1, business_userId = ''u1'', business_name = ''Cafe'',
      business_phone = None, business_notes = None, businessTypeId = Some 1,
      business_jurisdictionId = Some 1, business_createdAt = 0, business_updatedAt = 0\<rparr>"

definition otherBusiness :: Business where
  "otherBusiness =
     \<lparr>business_id = 2, business_userId = ''u2'', business_name = ''Bakery'',
      business_phone = None, business_notes = None, businessTypeId = None,
      business_jurisdictionId = None, business_createdAt = 0, business_updatedAt = 0\<rparr>"

definition sampleDocument :: BusinessDocument where
  "sampleDocument =
     \<lparr>document_id = 7, businessId = 1, title = ''Food permit'', permitNumber = Some ''P-1'',
      documentCategory = LICENSE, status = EXPIRED, startDate = Some 500, endDate = Some 500,
      autoRenew = True, permitTypeId = None, issuingAuthorityId = Some 1,
      jurisdictionId = Some 1, rawExtractionJson = JString ''raw'',
      sourceFileBucket = Some ''permit-files'', sourceFilePath = Some ''u1/a.pdf'',
      sourceFileContentType = Some ''application/pdf'', sourceFileName = Some ''a.pdf'',
      sourceFileSize = Some (Fin 10), createdAt = 0, updatedAt = 0\<rparr>"

definition bareDocument :: BusinessDocument where
  "bareDocument =
     sampleDocument\<lparr>document_id := 8, sourceFileBucket := None, sourceFilePath := None,
                     sourceFileContentType := None, sourceFileName := None,
                     sourceFileSize := None\<rparr>"

definition strayDocument :: BusinessDocument where
  "strayDocument = sampleDocument\<lparr>document_id := 9, sourceFileBucket := Some ''other-bucket''\<rparr>"

definition foreignDocument :: BusinessDocument where
  "foreignDocument = sampleDocument\<lparr>document_id := 10, businessId := 2\<rparr>"

definition sampleDatabase :: Database where
  "sampleDatabase =
     \<lparr>users = [\<lparr>user_id = ''u1'', user_email = ''ann@example.org'', user_name = ''Ann'',
                 user_phone = None\<rparr>],
      businessTypes = [\<lparr>lookup_id = 1, lookup_name = ''Restaurant''\<rparr>],
      jurisdictions = [\<lparr>lookup_id = 1, lookup_name = ''Charleston''\<rparr>],
      permitTypes = [],
      issuingAuthorities = [\<lparr>lookup_id = 1, lookup_name = ''Fire Department''\<rparr>],
      businesses = [sampleBusiness, otherBusiness],
      businessDocuments = [sampleDocument, bareDocument, strayDocument, foreignDocument]\<rparr>"

definition sampleMeta :: PermitSourceFileMeta where
  "sampleMeta = \<lparr>bucket = ''permit-files'', path = ''u1/a.pdf'', contentType = ''application/pdf'',
                  name = ''a.pdf'', fileSize = Fin 10\<rparr>"

section \<open>Facts about the string functions\<close>

lemma of_char_char_of_small: "n < 256 \<Longrightarrow> (of_char (char_of (n::nat)) :: nat) = n"
  by (simp add: of_char_of)

lemma of_char_lt_256: "(of_char c :: nat) < 256"
  by (rule nat_of_char_less_256)

lemma isWhiteSpace_upperChar: "isWhiteSpace (upperChar c) = isWhiteSpace c"
proof -
  let ?n = "of_char c :: nat"
  have "(of_char (char_of (?n - 32)) :: nat) = ?n - 32"
    by (rule of_char_char_of_small) (use of_char_lt_256[of c] in arith)
  then show ?thesis
    by (auto simp: isWhiteSpace_def upperChar_def Let_def)
qed

lemma upperChar_hyphen: "(upperChar c = CHR ''-'') = (c = CHR ''-'')"
proof -
  let ?n = "of_char c :: nat"
  have small: "(of_char (char_of (?n - 32)) :: nat) = ?n - 32"
    by (rule of_char_char_of_small) (use of_char_lt_256[of c] in arith)
  have "char_of (?n - 32) \<noteq> CHR ''-''" if "97 \<le> ?n"
  proof
    assume "char_of (?n - 32) = CHR ''-''"
    then have "(of_char (char_of (?n - 32)) :: nat) = of_char CHR ''-''"
      by simp
    with small that show False by simp
  qed
  then show ?thesis by (auto simp: upperChar_def Let_def)
qed

lemma upperUnits_space: "isSpaceOrHyphen c \<Longrightarrow> upperUnits c = [c]"
  by (auto simp: upperUnits_def upperChar_def isSpaceOrHyphen_def isWhiteSpace_def Let_def)

lemma upperUnits_other:
  "\<not> isWhiteSpace c \<Longrightarrow>
     upperUnits c \<noteq> [] \<and> \<not> isWhiteSpace (hd (upperUnits c)) \<and> \<not> isWhiteSpace (last (upperUnits c))"
  by (simp add: upperUnits_def isWhiteSpace_upperChar) (simp add: isWhiteSpace_def)

lemma dropWhile_concat_map:
  assumes same: "\<And>c. P c \<Longrightarrow> f c = [c]"
    and other: "\<And>c. \<not> P c \<Longrightarrow> f c \<noteq> [] \<and> \<not> P (hd (f c))"
  shows "dropWhile P (concat (map f s)) = concat (map f (dropWhile P s))"
proof (induction s)
  case Nil
  then show ?case by simp
next
  case (Cons c s)
  show ?case
  proof (cases "P c")
    case True
    with same[OF True] Cons show ?thesis by simp
  next
    case False
    from other[OF False] obtain x xs where "f c = x # xs" "\<not> P x"
      by (cases "f c") auto
    with False show ?thesis by simp
  qed
qed

lemma trim_toUpperCase: "trim (toUpperCase s) = toUpperCase (trim s)"
proof -
  have lead: "dropWhile isWhiteSpace (concat (map upperUnits t))
             = concat (map upperUnits (dropWhile isWhiteSpace t))" for t
    by (rule dropWhile_concat_map)
      (simp_all add: upperUnits_space isSpaceOrHyphen_def upperUnits_other)
  have rear: "dropWhile isWhiteSpace (concat (map (\<lambda>x. rev (upperUnits x)) t))
             = concat (map (\<lambda>x. rev (upperUnits x)) (dropWhile isWhiteSpace t))" for t
    by (rule dropWhile_concat_map)
      (simp_all add: upperUnits_space isSpaceOrHyphen_def upperUnits_other hd_rev)
  have "trimEnd (concat (map upperUnits t)) = concat (map upperUnits (trimEnd t))" for t
    by (simp add: trimEnd_def rev_concat rev_map rear comp_def)
  then show ?thesis
    by (simp add: trim_def trimStart_def toUpperCase_def lead)
qed

lemma toUpperCase_append: "toUpperCase (x @ y) = toUpperCase x @ toUpperCase y"
  by (simp add: toUpperCase_def)

lemma toUpperCase_separators: "\<forall>c\<in>set r. isSpaceOrHyphen c \<Longrightarrow> toUpperCase r = r"
  by (induction r) (simp_all add: toUpperCase_def upperUnits_space)

lemma toUpperCase_empty: "(toUpperCase s = []) = (s = [])"
  by (cases s) (auto simp: toUpperCase_def upperUnits_def)

lemma toUpperCase_ends:
  assumes "s \<noteq> []" "\<not> isWhiteSpace (hd s)" "\<not> isWhiteSpace (last s)"
  shows "\<not> isWhiteSpace (hd (toUpperCase s))" and "\<not> isWhiteSpace (last (toUpperCase s))"
proof -
  from assms obtain c cs where s: "s = c # cs" by (cases s) auto
  with assms upperUnits_other[of c] show "\<not> isWhiteSpace (hd (toUpperCase s))"
    by (simp add: toUpperCase_def hd_append)
  from assms obtain ds d where s': "s = ds @ [d]" by (cases s rule: rev_cases) auto
  with assms upperUnits_other[of d] show "\<not> isWhiteSpace (last (toUpperCase s))"
    by (simp add: toUpperCase_def)
qed

lemma trim_unchanged:
  assumes "s \<noteq> []" and "\<not> isWhiteSpace (hd s)" and "\<not> isWhiteSpace (last s)"
  shows "trim s = s"
proof -
  have front: "dropWhile isWhiteSpace s = s"
    using assms by (cases s) auto
  have "rev s \<noteq> []" and "\<not> isWhiteSpace (hd (rev s))"
    using assms by (auto simp: hd_rev)
  then have "dropWhile isWhiteSpace (rev s) = rev s"
    by (cases "rev s") auto
  with front show ?thesis
    by (simp add: trim_def trimStart_def trimEnd_def)
qed

lemma dropWhile_all_append:
  "\<forall>c\<in>set xs. P c \<Longrightarrow> dropWhile P (xs @ ys) = dropWhile P ys"
  by (induction xs) auto

lemma replaceSpaceHyphenRuns_plain:
  "\<forall>c\<in>set u. \<not> isSpaceOrHyphen c \<Longrightarrow> replaceSpaceHyphenRuns u = u"
  by (induction u) auto

lemma replaceSpaceHyphenRuns_underscore:
  "c \<in> set u \<Longrightarrow> isSpaceOrHyphen c \<Longrightarrow> CHR ''_'' \<in> set (replaceSpaceHyphenRuns u)"
proof (induction u rule: replaceSpaceHyphenRuns.induct)
  case 1
  then show ?case by simp
next
  case (2 d ds)
  then show ?case by (cases "isSpaceOrHyphen d") auto
qed

lemma replaceSpaceHyphenRuns_run:
  "r \<noteq> [] \<Longrightarrow> \<forall>c\<in>set r. isSpaceOrHyphen c \<Longrightarrow>
   replaceSpaceHyphenRuns (x @ r @ y) = replaceSpaceHyphenRuns (x @ CHR ''-'' # y)"
proof (induction x rule: replaceSpaceHyphenRuns.induct)
  case 1
  then show ?case
    by (cases r) (auto simp: isSpaceOrHyphen_def dropWhile_all_append)
next
  case (2 d ds)
  show ?case
  proof (cases "isSpaceOrHyphen d")
    case False
    with 2 show ?thesis by simp
  next
    case True
    show ?thesis
    proof (cases "\<forall>c\<in>set ds. isSpaceOrHyphen c")
      case allsep: True
      have "dropWhile isSpaceOrHyphen (ds @ r @ y) = dropWhile isSpaceOrHyphen y"
        using allsep 2(4) by (simp add: dropWhile_all_append)
      moreover have "dropWhile isSpaceOrHyphen (ds @ CHR ''-'' # y) = dropWhile isSpaceOrHyphen y"
        using allsep by (simp add: dropWhile_all_append isSpaceOrHyphen_def)
      ultimately show ?thesis using True by simp
    next
      case False
      then have "\<And>z. dropWhile isSpaceOrHyphen (ds @ z) = dropWhile isSpaceOrHyphen ds @ z"
        by (auto simp: dropWhile_append1)
      then show ?thesis using True 2 by simp
    qed
  qed
qed

lemma find_Some_member: "find P xs = Some x \<Longrightarrow> x \<in> set xs \<and> P x"
  by (induction xs) (auto split: if_splits)

section \<open>Source-file reconciliation\<close>

lemma resolveSourceFileDecision_status:
  "resolveSourceFileDecision payload uid = Inl (SourceFilePayloadError m st) \<Longrightarrow> st = 400"
  by (auto simp: resolveSourceFileDecision_def Let_def split: if_splits jsval.splits)

text \<open>
  C1, as amended. A payload carries a reference when bucket and path are nonempty strings.
  Any other bucket, and any path that does not start with the requesting user's id and a
  slash, is rejected with status 400 and the message "Invalid source file reference". A
  reference with the designated bucket and such a path is accepted, that is, the decision
  is \<open>set\<close> with the bucket and the path as supplied, when the payload's size is a finite
  non-negative number; when the size is missing or not finite the payload is rejected with
  status 400 and the message "Invalid source file size". So among the payloads with a
  finite non-negative size, a reference is accepted if and only if bucket and path are
  right.
\<close>

theorem source_file_reference_decision:
  assumes "field payload ''sourceFileBucket'' = JString b"
    and "field payload ''sourceFilePath'' = JString p"
    and "b \<noteq> []" and "p \<noteq> []"
  shows "(\<not> (b = PERMIT_FILES_BUCKET \<and> startsWith p (userId @ ''/'')) \<longrightarrow>
            resolveSourceFileDecision payload userId =
              Inl (SourceFilePayloadError ''Invalid source file reference'' 400))
       \<and> (b = PERMIT_FILES_BUCKET \<and> startsWith p (userId @ ''/'')
            \<and> \<not> isFinite (payloadNumericSize payload) \<longrightarrow>
            resolveSourceFileDecision payload userId =
              Inl (SourceFilePayloadError ''Invalid source file size'' 400))
       \<and> (b = PERMIT_FILES_BUCKET \<and> startsWith p (userId @ ''/'')
            \<and> isFinite (payloadNumericSize payload)
            \<and> \<not> jsLessZero (payloadNumericSize payload) \<longrightarrow>
            resolveSourceFileDecision payload userId =
              Inr (Set \<lparr>bucket = b, path = p, contentType = payloadContentType payload,
                          name = payloadFileName payload,
                          fileSize = payloadNumericSize payload\<rparr>))
       \<and> (isFinite (payloadNumericSize payload) \<and> \<not> jsLessZero (payloadNumericSize payload) \<longrightarrow>
            ((\<exists>m. resolveSourceFileDecision payload userId = Inr (Set m))
               = (b = PERMIT_FILES_BUCKET \<and> startsWith p (userId @ ''/''))))"
  using assms
  by (simp add: resolveSourceFileDecision_def Let_def)

theorem source_file_reference_decision_witness:
  "field (JObject [(''sourceFileBucket'', JString ''permit-files''),
                   (''sourceFilePath'', JString ''u1/a.pdf''),
                   (''sourceFileSize'', JNumber (Fin 12))]) ''sourceFileBucket''
     = JString ''permit-files''
   \<and> field (JObject [(''sourceFileBucket'', JString ''permit-files''),
                   (''sourceFilePath'', JString ''u1/a.pdf''),
                   (''sourceFileSize'', JNumber (Fin 12))]) ''sourceFilePath''
     = JString ''u1/a.pdf''
   \<and> resolveSourceFileDecision
        (JObject [(''sourceFileBucket'', JString ''permit-files''),
                  (''sourceFilePath'', JString ''u1/a.pdf''),
                  (''sourceFileSize'', JNumber (Fin 12))]) ''u1''
     = Inr (Set \<lparr>bucket = ''permit-files'', path = ''u1/a.pdf'',
                 contentType = ''application/octet-stream'', name = ''permit-file'',
                 fileSize = Fin 12\<rparr>)
   \<and> resolveSourceFileDecision
        (JObject [(''sourceFileBucket'', JString ''permit-files''),
                  (''sourceFilePath'', JString ''u1/a.pdf''),
                  (''sourceFileSize'', JNumber (Fin 12))]) ''u2''
     = Inl (SourceFilePayloadError ''Invalid source file reference'' 400)
   \<and> resolveSourceFileDecision
        (JObject [(''sourceFileBucket'', JString ''other-bucket''),
                  (''sourceFilePath'', JString ''u1/a.pdf''),
                  (''sourceFileSize'', JNumber (Fin 12))]) ''u1''
     = Inl (SourceFilePayloadError ''Invalid source file reference'' 400)"
proof -
  let ?P = "JObject [(''sourceFileBucket'', JString ''permit-files''),
                     (''sourceFilePath'', JString ''u1/a.pdf''),
                     (''sourceFileSize'', JNumber (Fin 12))]"
  let ?Q = "JObject [(''sourceFileBucket'', JString ''other-bucket''),
                     (''sourceFilePath'', JString ''u1/a.pdf''),
                     (''sourceFileSize'', JNumber (Fin 12))]"
  have b: "field ?P ''sourceFileBucket'' = JString ''permit-files''"
    and p: "field ?P ''sourceFilePath'' = JString ''u1/a.pdf''"
    and qb: "field ?Q ''sourceFileBucket'' = JString ''other-bucket''"
    and qp: "field ?Q ''sourceFilePath'' = JString ''u1/a.pdf''"
    by (simp_all add: field_def)
  have ne: "''permit-files'' \<noteq> []" "''u1/a.pdf'' \<noteq> []" "''other-bucket'' \<noteq> []"
    by simp_all
  have sz: "payloadNumericSize ?P = Fin 12" "payloadContentType ?P = ''application/octet-stream''"
    "payloadFileName ?P = ''permit-file''"
    by (simp_all add: payloadNumericSize_def payloadContentType_def payloadFileName_def field_def)
  have pre: "startsWith ''u1/a.pdf'' (''u1'' @ ''/'')"
    "\<not> startsWith ''u1/a.pdf'' (''u2'' @ ''/'')" "isFinite (Fin 12)" "\<not> jsLessZero (Fin 12)"
    by (simp_all add: startsWith_def isFinite_def jsLessZero_def)
  have accepted: "resolveSourceFileDecision ?P ''u1''
     = Inr (Set \<lparr>bucket = ''permit-files'', path = ''u1/a.pdf'',
                 contentType = ''application/octet-stream'', name = ''permit-file'',
                 fileSize = Fin 12\<rparr>)"
    using source_file_reference_decision [OF b p ne(1,2), of "''u1''"] sz pre
    by (simp add: PERMIT_FILES_BUCKET_def)
  have foreign: "resolveSourceFileDecision ?P ''u2''
     = Inl (SourceFilePayloadError ''Invalid source file reference'' 400)"
    using source_file_reference_decision [OF b p ne(1,2), of "''u2''"] pre
    by (simp add: PERMIT_FILES_BUCKET_def)
  have bucket: "resolveSourceFileDecision ?Q ''u1''
     = Inl (SourceFilePayloadError ''Invalid source file reference'' 400)"
    using source_file_reference_decision [OF qb qp ne(3,2), of "''u1''"]
    by (simp add: PERMIT_FILES_BUCKET_def)
  from b p accepted foreign bucket show ?thesis by simp
qed

text \<open>
  C1 as stated fails: a payload with the designated bucket and a path under the user's id,
  but without a size, is rejected (with "Invalid source file size"), so the reference is
  not accepted although bucket and path are right.
\<close>

theorem source_file_reference_counterexample:
  "PERMIT_FILES_BUCKET = ''permit-files''
   \<and> startsWith ''u1/a.pdf'' (''u1'' @ ''/'')
   \<and> resolveSourceFileDecision
        (JObject [(''sourceFileBucket'', JString ''permit-files''),
                  (''sourceFilePath'', JString ''u1/a.pdf'')]) ''u1''
     = Inl (SourceFilePayloadError ''Invalid source file size'' 400)"
  by (simp add: resolveSourceFileDecision_def field_def PERMIT_FILES_BUCKET_def startsWith_def
      isFinite_def payloadNumericSize_def)

text \<open>
  C4. The document routes accept a negative size: for a valid reference whose
  \<open>sourceFileSize\<close> is the number \<open>-5\<close>, \<open>resolveSourceFileDecision\<close> answers \<open>set\<close> with
  size \<open>-5\<close>, where the claim asks for a rejection.
\<close>

theorem negative_size_is_set:
  "resolveSourceFileDecision
     (JObject [(''sourceFileBucket'', JString ''permit-files''),
               (''sourceFilePath'', JString ''u1/a.pdf''),
               (''sourceFileSize'', JNumber (Fin (- 5)))]) ''u1''
   = Inr (Set \<lparr>bucket = ''permit-files'', path = ''u1/a.pdf'',
               contentType = ''application/octet-stream'', name = ''permit-file'',
               fileSize = Fin (- 5)\<rparr>)"
  by (simp add: resolveSourceFileDecision_def field_def PERMIT_FILES_BUCKET_def startsWith_def
      isFinite_def payloadNumericSize_def payloadContentType_def payloadFileName_def)

theorem negative_size_is_set_witness:
  "\<exists>m. resolveSourceFileDecision
         (JObject [(''sourceFileBucket'', JString ''permit-files''),
                   (''sourceFilePath'', JString ''u1/a.pdf''),
                   (''sourceFileSize'', JNumber (Fin (- 5)))]) ''u1'' = Inr (Set m)
       \<and> fileSize m = Fin (- 5)"
  using negative_size_is_set by simp

text \<open>
  C10. A payload that supplies one of the five source-file fields, leaves the bucket or the
  path undefined, and has neither of the two null or empty, is rejected with status 400
  and the message "Invalid source file metadata".
\<close>

theorem partial_source_file_fields_rejected:
  assumes "field payload ''sourceFileBucket'' \<noteq> JUndefined
         \<or> field payload ''sourceFilePath'' \<noteq> JUndefined
         \<or> field payload ''sourceFileContentType'' \<noteq> JUndefined
         \<or> field payload ''sourceFileName'' \<noteq> JUndefined
         \<or> field payload ''sourceFileSize'' \<noteq> JUndefined"
    and "field payload ''sourceFileBucket'' = JUndefined
         \<or> field payload ''sourceFilePath'' = JUndefined"
    and "field payload ''sourceFileBucket'' \<notin> {JNull, JString []}"
    and "field payload ''sourceFilePath'' \<notin> {JNull, JString []}"
  shows "resolveSourceFileDecision payload userId =
           Inl (SourceFilePayloadError ''Invalid source file metadata'' 400)"
proof -
  have provided: "list_ex (\<lambda>v. v \<noteq> JUndefined)
      [field payload ''sourceFileBucket'', field payload ''sourceFilePath'',
       field payload ''sourceFileContentType'', field payload ''sourceFileName'',
       field payload ''sourceFileSize'']"
    using assms(1) by simp
  have kept: "\<not> (field payload ''sourceFileBucket'' = JNull
        \<or> field payload ''sourceFileBucket'' = JString []
        \<or> field payload ''sourceFilePath'' = JNull
        \<or> field payload ''sourceFilePath'' = JString [])"
    using assms(3,4) by simp
  from assms(2) show ?thesis
  proof
    assume "field payload ''sourceFileBucket'' = JUndefined"
    with provided kept show ?thesis
      by (simp add: resolveSourceFileDecision_def Let_def)
  next
    assume "field payload ''sourceFilePath'' = JUndefined"
    with provided kept show ?thesis
      by (simp add: resolveSourceFileDecision_def Let_def split: jsval.split)
  qed
qed

theorem partial_source_file_fields_rejected_witness:
  "field (JObject [(''sourceFileName'', JString ''a.pdf'')]) ''sourceFileName'' \<noteq> JUndefined
   \<and> field (JObject [(''sourceFileName'', JString ''a.pdf'')]) ''sourceFileBucket'' = JUndefined
   \<and> resolveSourceFileDecision (JObject [(''sourceFileName'', JString ''a.pdf'')]) ''u1''
       = Inl (SourceFilePayloadError ''Invalid source file metadata'' 400)"
proof -
  let ?P = "JObject [(''sourceFileName'', JString ''a.pdf'')]"
  have n: "field ?P ''sourceFileName'' \<noteq> JUndefined"
    and b: "field ?P ''sourceFileBucket'' = JUndefined"
    and p: "field ?P ''sourceFilePath'' = JUndefined"
    by (simp_all add: field_def)
  have "resolveSourceFileDecision ?P ''u1''
          = Inl (SourceFilePayloadError ''Invalid source file metadata'' 400)"
    by (rule partial_source_file_fields_rejected) (simp_all add: n b p)
  with n b show ?thesis by simp
qed

section \<open>Category and status normalisation\<close>

lemma category_name_plain:
  "map_of DocumentCategory_values u = Some c \<Longrightarrow> CHR ''_'' \<notin> set u \<and> (\<forall>x\<in>set u. \<not> isSpaceOrHyphen x)"
  by (auto simp: DocumentCategory_values_def isSpaceOrHyphen_def isWhiteSpace_def split: if_splits)

lemma same_runs_same_plain:
  assumes runs: "replaceSpaceHyphenRuns w = replaceSpaceHyphenRuns u"
    and plain: "CHR ''_'' \<notin> set u" and nosep: "\<forall>c\<in>set u. \<not> isSpaceOrHyphen c"
  shows "w = u"
proof -
  have ru: "replaceSpaceHyphenRuns u = u"
    using nosep by (rule replaceSpaceHyphenRuns_plain)
  have "\<forall>c\<in>set w. \<not> isSpaceOrHyphen c"
  proof (rule ccontr)
    assume "\<not> (\<forall>c\<in>set w. \<not> isSpaceOrHyphen c)"
    then obtain c where "c \<in> set w" "isSpaceOrHyphen c" by blast
    then have "CHR ''_'' \<in> set (replaceSpaceHyphenRuns w)"
      by (rule replaceSpaceHyphenRuns_underscore)
    with runs ru plain show False by simp
  qed
  then have "replaceSpaceHyphenRuns w = w"
    by (rule replaceSpaceHyphenRuns_plain)
  with runs ru show ?thesis by simp
qed

lemma normalizeCategory_same_runs:
  assumes "replaceSpaceHyphenRuns (toUpperCase (trim a)) = replaceSpaceHyphenRuns (toUpperCase (trim b))"
  shows "normalizeCategory (JString a) = normalizeCategory (JString b)"
proof (cases "map_of DocumentCategory_values (toUpperCase (trim a))")
  case (Some c)
  from category_name_plain[OF Some] assms have "toUpperCase (trim b) = toUpperCase (trim a)"
    by (simp add: same_runs_same_plain)
  then show ?thesis by (simp add: normalizeCategory_def)
next
  case None
  show ?thesis
  proof (cases "map_of DocumentCategory_values (toUpperCase (trim b))")
    case (Some c)
    from category_name_plain[OF Some] assms have "toUpperCase (trim a) = toUpperCase (trim b)"
      by (simp add: same_runs_same_plain)
    then show ?thesis by (simp add: normalizeCategory_def)
  next
    case n: None
    with None show ?thesis by (simp add: normalizeCategory_def)
  qed
qed

lemma status_run:
  assumes "x \<noteq> []" "\<not> isWhiteSpace (hd x)" "y \<noteq> []" "\<not> isWhiteSpace (last y)"
    and "r \<noteq> []" "\<forall>c\<in>set r. isSpaceOrHyphen c"
  shows "replaceSpaceHyphenRuns (toUpperCase (trim (x @ r @ y)))
       = replaceSpaceHyphenRuns (toUpperCase x @ CHR ''-'' # toUpperCase y)"
proof -
  have "trim (x @ r @ y) = x @ r @ y"
    using assms by (simp add: trim_unchanged hd_append)
  moreover have "toUpperCase r = r"
    using assms(6) by (rule toUpperCase_separators)
  ultimately show ?thesis
    using replaceSpaceHyphenRuns_run[OF assms(5,6), of "toUpperCase x" "toUpperCase y"]
    by (simp add: toUpperCase_append)
qed

text \<open>
  C3, as amended. Category and status strings that differ only by letter case or by
  surrounding white space normalise to the same value. Status strings that agree once
  every maximal run of white space and hyphens is replaced by one underscore normalise to
  the same status (and to the same category): between two words, any run of white space
  and hyphens is as good as any other. The value is the one whose name is the normal form
  of the string; a string whose normal form is not the name of an enumerated value, and any
  value that is not a string, gives PERMIT and ACTIVE.
\<close>

theorem normalization_format_insensitive:
  "(toUpperCase a = toUpperCase b \<or> trim a = trim b \<longrightarrow>
      normalizeCategory (JString a) = normalizeCategory (JString b)
    \<and> normalizeStatus (JString a) = normalizeStatus (JString b))
 \<and> (replaceSpaceHyphenRuns (toUpperCase (trim a)) = replaceSpaceHyphenRuns (toUpperCase (trim b)) \<longrightarrow>
      normalizeStatus (JString a) = normalizeStatus (JString b)
    \<and> normalizeCategory (JString a) = normalizeCategory (JString b))
 \<and> (x \<noteq> [] \<and> \<not> isWhiteSpace (hd x) \<and> y \<noteq> [] \<and> \<not> isWhiteSpace (last y)
      \<and> r1 \<noteq> [] \<and> r2 \<noteq> [] \<and> (\<forall>c\<in>set (r1 @ r2). isSpaceOrHyphen c) \<longrightarrow>
      normalizeStatus (JString (x @ r1 @ y)) = normalizeStatus (JString (x @ r2 @ y)))
 \<and> (map_of DocumentCategory_values (toUpperCase (trim a)) = Some c \<longrightarrow>
      normalizeCategory (JString a) = c)
 \<and> (map_of DocumentStatus_values (replaceSpaceHyphenRuns (toUpperCase (trim a))) = Some st \<longrightarrow>
      normalizeStatus (JString a) = st)
 \<and> (map_of DocumentCategory_values (toUpperCase (trim a)) = None \<longrightarrow>
      normalizeCategory (JString a) = PERMIT)
 \<and> (map_of DocumentStatus_values (replaceSpaceHyphenRuns (toUpperCase (trim a))) = None \<longrightarrow>
      normalizeStatus (JString a) = ACTIVE)
 \<and> ((\<forall>s. v \<noteq> JString s) \<longrightarrow> normalizeCategory v = PERMIT \<and> normalizeStatus v = ACTIVE)"
proof -
  have c1: "normalizeCategory (JString a) = normalizeCategory (JString b)
          \<and> normalizeStatus (JString a) = normalizeStatus (JString b)"
    if "toUpperCase a = toUpperCase b \<or> trim a = trim b"
  proof -
    from that have "toUpperCase (trim a) = toUpperCase (trim b)"
      by (metis trim_toUpperCase)
    then show ?thesis by (simp add: normalizeCategory_def normalizeStatus_def)
  qed
  have c2: "normalizeStatus (JString a) = normalizeStatus (JString b)
          \<and> normalizeCategory (JString a) = normalizeCategory (JString b)"
    if "replaceSpaceHyphenRuns (toUpperCase (trim a)) = replaceSpaceHyphenRuns (toUpperCase (trim b))"
    using that normalizeCategory_same_runs[OF that] by (simp add: normalizeStatus_def)
  have c3: "normalizeStatus (JString (x @ r1 @ y)) = normalizeStatus (JString (x @ r2 @ y))"
    if "x \<noteq> [] \<and> \<not> isWhiteSpace (hd x) \<and> y \<noteq> [] \<and> \<not> isWhiteSpace (last y)
      \<and> r1 \<noteq> [] \<and> r2 \<noteq> [] \<and> (\<forall>c\<in>set (r1 @ r2). isSpaceOrHyphen c)"
    using that status_run[of x y r1] status_run[of x y r2]
    by (simp add: normalizeStatus_def)
  have c4: "normalizeCategory v = PERMIT \<and> normalizeStatus v = ACTIVE" if "\<forall>s. v \<noteq> JString s"
    using that by (cases v) (simp_all add: normalizeCategory_def normalizeStatus_def)
  show ?thesis
    using c1 c2 c3 c4 by (simp add: normalizeCategory_def normalizeStatus_def)
qed

theorem normalization_format_insensitive_witness:
  "toUpperCase ''License'' = toUpperCase ''lICENSE''
   \<and> normalizeCategory (JString ''License'') = LICENSE
   \<and> normalizeCategory (JString ''lICENSE'') = LICENSE
   \<and> normalizeStatus (JString '' pending - renewal'') = PENDING_RENEWAL
   \<and> normalizeStatus (JString ''Pending_Renewal'') = PENDING_RENEWAL
   \<and> normalizeStatus (JString ''pending  renewal'') = normalizeStatus (JString ''pending-renewal'')
   \<and> normalizeCategory (JString ''licence'') = PERMIT
   \<and> normalizeStatus (JString ''renewed'') = ACTIVE
   \<and> normalizeStatus (JNumber (Fin 3)) = ACTIVE"
proof -
  have h1: "toUpperCase ''License'' = toUpperCase ''lICENSE''" by code_simp
  have h2: "replaceSpaceHyphenRuns (toUpperCase (trim '' pending - renewal''))
          = replaceSpaceHyphenRuns (toUpperCase (trim ''Pending_Renewal''))" by code_simp
  have h3: "''pending'' \<noteq> [] \<and> \<not> isWhiteSpace (hd ''pending'') \<and> ''renewal'' \<noteq> []
      \<and> \<not> isWhiteSpace (last ''renewal'') \<and> ''  '' \<noteq> [] \<and> ''-'' \<noteq> []
      \<and> (\<forall>c\<in>set (''  '' @ ''-''). isSpaceOrHyphen c)" by code_simp
  have h4: "map_of DocumentCategory_values (toUpperCase (trim ''licence'')) = None" by code_simp
  have h5: "map_of DocumentStatus_values (replaceSpaceHyphenRuns (toUpperCase (trim ''renewed''))) = None"
    by code_simp
  have h6: "\<forall>s. JNumber (Fin 3) \<noteq> JString s" by simp
  have h7: "map_of DocumentCategory_values (toUpperCase (trim ''License'')) = Some LICENSE"
    by code_simp
  have h8: "map_of DocumentStatus_values
              (replaceSpaceHyphenRuns (toUpperCase (trim '' pending - renewal''))) = Some PENDING_RENEWAL"
    by code_simp
  note t = normalization_format_insensitive
  from h7 t[where a="''License''" and c=LICENSE]
  have g0: "normalizeCategory (JString ''License'') = LICENSE"
    by blast
  from h1 t[where a="''License''" and b="''lICENSE''"]
  have g1: "normalizeCategory (JString ''License'') = normalizeCategory (JString ''lICENSE'')"
    by blast
  from h8 t[where a="'' pending - renewal''" and st=PENDING_RENEWAL]
  have g7: "normalizeStatus (JString '' pending - renewal'') = PENDING_RENEWAL"
    by blast
  from h2 t[where a="'' pending - renewal''" and b="''Pending_Renewal''"]
  have g2: "normalizeStatus (JString '' pending - renewal'') = normalizeStatus (JString ''Pending_Renewal'')"
    by blast
  from h3 t[where x="''pending''" and y="''renewal''" and ?r1.0="''  ''" and ?r2.0="''-''"]
  have g3: "normalizeStatus (JString (''pending'' @ ''  '' @ ''renewal''))
          = normalizeStatus (JString (''pending'' @ ''-'' @ ''renewal''))"
    by blast
  from h4 t[where a="''licence''"] have g4: "normalizeCategory (JString ''licence'') = PERMIT"
    by blast
  from h5 t[where a="''renewed''"] have g5: "normalizeStatus (JString ''renewed'') = ACTIVE"
    by blast
  from h6 t[where v="JNumber (Fin 3)"] have g6: "normalizeStatus (JNumber (Fin 3)) = ACTIVE"
    by blast
  from h1 g0 g1 g7 g2 g3 g4 g5 g6 show ?thesis by simp
qed

text \<open>
  C3 as stated fails: runs of underscores are not folded, so two status strings that differ
  only by hyphens versus underscores can normalise differently, and the category
  normalisation does not fold internal white space at all.
\<close>

theorem normalization_counterexample:
  "map (\<lambda>c. if c = CHR ''-'' then CHR ''_'' else c) ''pending--renewal'' = ''pending__renewal''
   \<and> normalizeStatus (JString ''pending--renewal'') = PENDING_RENEWAL
   \<and> normalizeStatus (JString ''pending__renewal'') = ACTIVE
   \<and> filter (\<lambda>c. \<not> isWhiteSpace c) ''LIC ENSE'' = ''LICENSE''
   \<and> normalizeCategory (JString ''LIC ENSE'') = PERMIT
   \<and> normalizeCategory (JString ''LICENSE'') = LICENSE"
  by code_simp


section \<open>Document update\<close>

lemma ensureProfile_tables:
  "businesses (snd (ensureProfile db u)) = businesses db"
  "businessDocuments (snd (ensureProfile db u)) = businessDocuments db"
  "jurisdictions (snd (ensureProfile db u)) = jurisdictions db"
  "issuingAuthorities (snd (ensureProfile db u)) = issuingAuthorities db"
  "businessTypes (snd (ensureProfile db u)) = businessTypes db"
  "permitTypes (snd (ensureProfile db u)) = permitTypes db"
  by (auto simp: ensureProfile_def Let_def split: option.splits)

lemma resolveUser_signed_in:
  "resolveUser rt db = Inr (Some user, db1) \<Longrightarrow>
     auth_error (getUser rt) = None \<and> auth_user (getUser rt) = Some user
     \<and> db1 = snd (ensureProfile db user)"
  by (auto simp: resolveUser_def split: option.splits)

lemma idIs_unique: "idIs n a \<Longrightarrow> idIs n b \<Longrightarrow> a = b"
  by (auto simp: idIs_def)

lemma PATCH_document_try_success:
  assumes ok: "PATCH_document_try rt db i j payload (trimmedString (field payload ''title''))
                 = (Inr (JsonResponse 200 b), db')"
  obtains user :: SupabaseUser and existingDocument and decision where
    "existingDocument \<in> set (businessDocuments db)"
    and "idIs j (document_id existingDocument)"
    and "resolveSourceFileDecision payload (su_id user) = Inr decision"
    and "businessDocuments db' =
           map (\<lambda>d. if document_id d = document_id existingDocument
                     then documentUpdateOf rt db payload decision d else d)
               (businessDocuments db)"
proof -
  obtain user db1 where ru: "resolveUser rt db = Inr (Some user, db1)"
    using ok unfolding PATCH_document_try_def
    by (auto simp: errorJson_def split: sum.splits option.splits prod.splits)
  note u = resolveUser_signed_in[OF ru]
  obtain eb where fb: "find (\<lambda>b. idIs i (business_id b) \<and> business_userId b = su_id user)
                         (businesses db1) = Some eb"
    using ok ru unfolding PATCH_document_try_def
    by (auto simp: errorJson_def split: option.splits)
  obtain ed where fd: "find (\<lambda>d. idIs j (document_id d) \<and> businessId d = business_id eb)
                         (businessDocuments db1) = Some ed"
    using ok ru fb unfolding PATCH_document_try_def
    by (auto simp: errorJson_def split: option.splits)
  obtain decision where dec: "resolveSourceFileDecision payload (su_id user) = Inr decision"
    using ok ru fb fd unfolding PATCH_document_try_def
    by (auto simp: errorJson_def Let_def split: sum.splits)
  have "businessDocuments db' = businessDocuments (updateDocument (document_id ed)
           (documentUpdateOf rt db1 payload decision)
           (db1\<lparr>jurisdictions := snd (optionalLookup (trimmedString (field payload ''jurisdictionName''))
                      (jurisdictions db1)),
                issuingAuthorities := snd (optionalLookup (trimmedString (field payload ''issuingAuthorityName''))
                      (issuingAuthorities db1))\<rparr>))"
    using ok ru fb fd dec unfolding PATCH_document_try_def documentUpdateOf_def
    by (auto simp: Let_def split: option.splits prod.splits)
  then have rows: "businessDocuments db' =
             map (\<lambda>d. if document_id d = document_id ed
                       then documentUpdateOf rt db payload decision d else d)
                 (businessDocuments db)"
    using u by (simp add: updateDocument_def ensureProfile_tables documentUpdateOf_def)
  have ed: "ed \<in> set (businessDocuments db)" "idIs j (document_id ed)"
    using find_Some_member[OF fd] u by (simp_all add: ensureProfile_tables)
  from ed dec rows show ?thesis by (rule that)
qed

lemma PATCH_document_try_payload_error:
  "PATCH_document_try rt db i j payload t = (Inl (PayloadError (SourceFilePayloadError m st)), db')
   \<Longrightarrow> st = 400"
  unfolding PATCH_document_try_def resolveUser_def
  by (auto simp: Let_def errorJson_def dest: resolveSourceFileDecision_status
      split: option.splits sum.splits prod.splits)

lemma PATCH_document_success:
  assumes "succeeded (fst (PATCH_document rt db i j (Parsed payload)))"
  shows "\<exists>bi dj b. parseId j = Some dj
     \<and> PATCH_document_try rt db bi dj payload (trimmedString (field payload ''title''))
          = (Inr (JsonResponse 200 b), snd (PATCH_document rt db i j (Parsed payload)))"
  using assms unfolding PATCH_document_def succeeded_def
  by (auto simp: errorJson_def Let_def dest: PATCH_document_try_payload_error
       split: option.splits if_splits sum.splits prod.splits exn.splits SourceFilePayloadError.splits
         Response.splits)

lemma parseId_Some: "parseId n = Some m \<Longrightarrow> m = n"
  by (auto simp: parseId_def split: if_splits)

text \<open>The rows of a successful update.\<close>

lemma PATCH_document_rows:
  assumes "succeeded (fst (PATCH_document rt db i j (Parsed payload)))"
  obtains user :: SupabaseUser and existingDocument and decision where
    "existingDocument \<in> set (businessDocuments db)"
    and "idIs j (document_id existingDocument)"
    and "resolveSourceFileDecision payload (su_id user) = Inr decision"
    and "businessDocuments (snd (PATCH_document rt db i j (Parsed payload))) =
           map (\<lambda>d. if document_id d = document_id existingDocument
                     then documentUpdateOf rt db payload decision d else d)
               (businessDocuments db)"
proof -
  from PATCH_document_success[OF assms] obtain bi dj b where
    dj: "parseId j = Some dj" and
    t: "PATCH_document_try rt db bi dj payload (trimmedString (field payload ''title''))
          = (Inr (JsonResponse 200 b), snd (PATCH_document rt db i j (Parsed payload)))"
    by blast
  from t obtain user :: SupabaseUser and ed and decision where
    found: "ed \<in> set (businessDocuments db)" "idIs dj (document_id ed)"
      "resolveSourceFileDecision payload (su_id user) = Inr decision"
      "businessDocuments (snd (PATCH_document rt db i j (Parsed payload))) =
         map (\<lambda>d. if document_id d = document_id ed
                   then documentUpdateOf rt db payload decision d else d)
             (businessDocuments db)"
    by (rule PATCH_document_try_success)
  from found(2) parseId_Some[OF dj] have "idIs j (document_id ed)" by simp
  from found(1) this found(3,4) show ?thesis by (rule that)
qed

lemma decision_Ignore:
  assumes "field payload ''sourceFileBucket'' = JUndefined"
    and "field payload ''sourceFilePath'' = JUndefined"
    and "field payload ''sourceFileContentType'' = JUndefined"
    and "field payload ''sourceFileName'' = JUndefined"
    and "field payload ''sourceFileSize'' = JUndefined"
  shows "resolveSourceFileDecision payload userId = Inr Ignore"
  using assms by (simp add: resolveSourceFileDecision_def)

lemma decision_Clear:
  assumes "field payload ''sourceFileBucket'' \<in> {JNull, JString []}"
    and "field payload ''sourceFilePath'' \<in> {JNull, JString []}"
  shows "resolveSourceFileDecision payload userId = Inr Clear"
  using assms by (auto simp: resolveSourceFileDecision_def Let_def)

lemma overwriteColumns_columns:
  "document_id (overwriteColumns rt payload t d) = document_id d"
  "sourceFileReference (overwriteColumns rt payload t d) = sourceFileReference d"
  "rawExtractionJson (overwriteColumns rt payload t d) = rawExtractionJson d"
  "jurisdictionId (overwriteColumns rt payload t d) = jurisdictionId d"
  "issuingAuthorityId (overwriteColumns rt payload t d) = issuingAuthorityId d"
  "title (overwriteColumns rt payload t d) = t"
  "permitNumber (overwriteColumns rt payload t d) = nonblankString (field payload ''permitNumber'')"
  "documentCategory (overwriteColumns rt payload t d) = normalizeCategory (field payload ''documentCategory'')"
  "status (overwriteColumns rt payload t d) = normalizeStatus (field payload ''status'')"
  "startDate (overwriteColumns rt payload t d) = parseDate (dateParse rt) (field payload ''startDate'')"
  "endDate (overwriteColumns rt payload t d) = parseDate (dateParse rt) (field payload ''endDate'')"
  "autoRenew (overwriteColumns rt payload t d) = (field payload ''autoRenew'' = JBool True)"
  by (simp_all add: overwriteColumns_def sourceFileReference_def)

lemma setRawExtraction_columns:
  "document_id (setRawExtraction payload d) = document_id d"
  "sourceFileReference (setRawExtraction payload d) = sourceFileReference d"
  "rawExtractionJson (setRawExtraction payload d) =
     (if field payload ''rawExtraction'' \<noteq> JUndefined then field payload ''rawExtraction''
      else rawExtractionJson d)"
  "jurisdictionId (setRawExtraction payload d) = jurisdictionId d"
  "issuingAuthorityId (setRawExtraction payload d) = issuingAuthorityId d"
  "title (setRawExtraction payload d) = title d"
  "permitNumber (setRawExtraction payload d) = permitNumber d"
  "documentCategory (setRawExtraction payload d) = documentCategory d"
  "status (setRawExtraction payload d) = status d"
  "startDate (setRawExtraction payload d) = startDate d"
  "endDate (setRawExtraction payload d) = endDate d"
  "autoRenew (setRawExtraction payload d) = autoRenew d"
  by (simp_all add: setRawExtraction_def sourceFileReference_def)

lemma setJurisdiction_columns:
  "document_id (setJurisdiction n l d) = document_id d"
  "sourceFileReference (setJurisdiction n l d) = sourceFileReference d"
  "rawExtractionJson (setJurisdiction n l d) = rawExtractionJson d"
  "jurisdictionId (setJurisdiction n l d) =
     (if n = [] then None else case l of Some j \<Rightarrow> Some (lookup_id j) | None \<Rightarrow> jurisdictionId d)"
  "issuingAuthorityId (setJurisdiction n l d) = issuingAuthorityId d"
  "title (setJurisdiction n l d) = title d"
  "permitNumber (setJurisdiction n l d) = permitNumber d"
  "documentCategory (setJurisdiction n l d) = documentCategory d"
  "status (setJurisdiction n l d) = status d"
  "startDate (setJurisdiction n l d) = startDate d"
  "endDate (setJurisdiction n l d) = endDate d"
  "autoRenew (setJurisdiction n l d) = autoRenew d"
  by (cases l; simp add: setJurisdiction_def sourceFileReference_def)+

lemma setIssuingAuthority_columns:
  "document_id (setIssuingAuthority n l d) = document_id d"
  "sourceFileReference (setIssuingAuthority n l d) = sourceFileReference d"
  "rawExtractionJson (setIssuingAuthority n l d) = rawExtractionJson d"
  "jurisdictionId (setIssuingAuthority n l d) = jurisdictionId d"
  "issuingAuthorityId (setIssuingAuthority n l d) =
     (if n = [] then None else case l of Some j \<Rightarrow> Some (lookup_id j) | None \<Rightarrow> issuingAuthorityId d)"
  "title (setIssuingAuthority n l d) = title d"
  "permitNumber (setIssuingAuthority n l d) = permitNumber d"
  "documentCategory (setIssuingAuthority n l d) = documentCategory d"
  "status (setIssuingAuthority n l d) = status d"
  "startDate (setIssuingAuthority n l d) = startDate d"
  "endDate (setIssuingAuthority n l d) = endDate d"
  "autoRenew (setIssuingAuthority n l d) = autoRenew d"
  by (cases l; simp add: setIssuingAuthority_def sourceFileReference_def)+

lemma applySourceFileDecision_columns:
  "document_id (applySourceFileDecision c d) = document_id d"
  "sourceFileReference (applySourceFileDecision c d) =
     (case c of
        Ignore \<Rightarrow> sourceFileReference d
      | Clear \<Rightarrow> (None, None, None, None, None)
      | Set v \<Rightarrow> (Some (bucket v), Some (path v), Some (contentType v), Some (name v),
                  Some (fileSize v)))"
  "rawExtractionJson (applySourceFileDecision c d) = rawExtractionJson d"
  "jurisdictionId (applySourceFileDecision c d) = jurisdictionId d"
  "issuingAuthorityId (applySourceFileDecision c d) = issuingAuthorityId d"
  "title (applySourceFileDecision c d) = title d"
  "permitNumber (applySourceFileDecision c d) = permitNumber d"
  "documentCategory (applySourceFileDecision c d) = documentCategory d"
  "status (applySourceFileDecision c d) = status d"
  "startDate (applySourceFileDecision c d) = startDate d"
  "endDate (applySourceFileDecision c d) = endDate d"
  "autoRenew (applySourceFileDecision c d) = autoRenew d"
  by (cases c; simp add: applySourceFileDecision_def sourceFileReference_def)+

lemmas update_columns = overwriteColumns_columns setRawExtraction_columns setJurisdiction_columns
  setIssuingAuthority_columns applySourceFileDecision_columns

lemma documentUpdateOf_columns:
  "document_id (documentUpdateOf rt db payload decision d) = document_id d"
  "sourceFileReference (documentUpdateOf rt db payload decision d) =
     (case decision of
        Ignore \<Rightarrow> sourceFileReference d
      | Clear \<Rightarrow> (None, None, None, None, None)
      | Set v \<Rightarrow> (Some (bucket v), Some (path v), Some (contentType v), Some (name v),
                  Some (fileSize v)))"
  "rawExtractionJson (documentUpdateOf rt db payload decision d) =
     (if field payload ''rawExtraction'' \<noteq> JUndefined then field payload ''rawExtraction''
      else rawExtractionJson d)"
  "title (documentUpdateOf rt db payload decision d) = trimmedString (field payload ''title'')"
  "permitNumber (documentUpdateOf rt db payload decision d) = nonblankString (field payload ''permitNumber'')"
  "documentCategory (documentUpdateOf rt db payload decision d) = normalizeCategory (field payload ''documentCategory'')"
  "status (documentUpdateOf rt db payload decision d) = normalizeStatus (field payload ''status'')"
  "startDate (documentUpdateOf rt db payload decision d) = parseDate (dateParse rt) (field payload ''startDate'')"
  "endDate (documentUpdateOf rt db payload decision d) = parseDate (dateParse rt) (field payload ''endDate'')"
  "autoRenew (documentUpdateOf rt db payload decision d) = (field payload ''autoRenew'' = JBool True)"
  by (simp_all add: documentUpdateOf_def applyDocumentUpdate_def update_columns
      split: SourceFileDecision.split)

lemma documentUpdateOf_links:
  "jurisdictionId (documentUpdateOf rt db payload decision d) =
     map_option lookup_id (fst (optionalLookup (trimmedString (field payload ''jurisdictionName''))
                                  (jurisdictions db)))"
  "issuingAuthorityId (documentUpdateOf rt db payload decision d) =
     map_option lookup_id (fst (optionalLookup (trimmedString (field payload ''issuingAuthorityName''))
                                  (issuingAuthorities db)))"
  by (simp_all add: documentUpdateOf_def applyDocumentUpdate_def update_columns optionalLookup_def)



lemma updated_rows_with_key:
  assumes rows: "rows' = map (\<lambda>d. if document_id d = document_id ed
                       then documentUpdateOf rt db payload decision d else d) rows"
    and ed: "ed \<in> set rows" "idIs j (document_id ed)"
  shows "\<exists>d\<in>set rows'. idIs j (document_id d)"
    and "d \<in> set rows' \<Longrightarrow> idIs j (document_id d) \<Longrightarrow>
           \<exists>d0\<in>set rows. d = documentUpdateOf rt db payload decision d0"
proof -
  have "documentUpdateOf rt db payload decision ed \<in> set rows'"
    using ed(1) by (force simp: rows)
  moreover have "idIs j (document_id (documentUpdateOf rt db payload decision ed))"
    using ed(2) by (simp add: documentUpdateOf_columns)
  ultimately show "\<exists>d\<in>set rows'. idIs j (document_id d)" by blast
next
  assume d: "d \<in> set rows'" "idIs j (document_id d)"
  from d(1) obtain d0 where d0: "d0 \<in> set rows"
    "d = (if document_id d0 = document_id ed then documentUpdateOf rt db payload decision d0 else d0)"
    by (auto simp: rows)
  have "document_id d = document_id d0"
    using d0(2) by (simp add: documentUpdateOf_columns split: if_splits)
  with d(2) ed(2) have "document_id d0 = document_id ed"
    by (metis idIs_unique)
  with d0 show "\<exists>d0\<in>set rows. d = documentUpdateOf rt db payload decision d0"
    by auto
qed

lemma omitted_defaults:
  "normalizeCategory JUndefined = PERMIT" "normalizeStatus JUndefined = ACTIVE"
  "parseDate parse JUndefined = None" "nonblankString JUndefined = None"
  "trimmedString JUndefined = []"
  by (simp_all add: normalizeCategory_def normalizeStatus_def parseDate_def nonblankString_def
      trimmedString_def)

lemma optionalLookup_fst:
  "map_option lookup_id (fst (optionalLookup nm rows)) =
     (if nm = [] then None else Some (lookup_id (fst (findOrCreate nm rows))))"
  by (simp add: optionalLookup_def)

text \<open>
  C5. On a successful document update whose payload has none of the five source-file
  fields, the stored source-file reference of every document is what it was. On a
  successful update whose payload has an empty-string or null bucket and an empty-string or
  null path, the updated document exists and its five source-file columns are null.
\<close>

theorem patch_source_file_frame:
  assumes ok: "succeeded (fst (PATCH_document rt db i j (Parsed payload)))"
  shows "(field payload ''sourceFileBucket'' = JUndefined
          \<and> field payload ''sourceFilePath'' = JUndefined
          \<and> field payload ''sourceFileContentType'' = JUndefined
          \<and> field payload ''sourceFileName'' = JUndefined
          \<and> field payload ''sourceFileSize'' = JUndefined \<longrightarrow>
            map sourceFileReference (businessDocuments (snd (PATCH_document rt db i j (Parsed payload))))
              = map sourceFileReference (businessDocuments db))
       \<and> (field payload ''sourceFileBucket'' \<in> {JNull, JString []}
          \<and> field payload ''sourceFilePath'' \<in> {JNull, JString []} \<longrightarrow>
            (\<exists>d\<in>set (businessDocuments (snd (PATCH_document rt db i j (Parsed payload)))).
                idIs j (document_id d))
          \<and> (\<forall>d\<in>set (businessDocuments (snd (PATCH_document rt db i j (Parsed payload)))).
                idIs j (document_id d) \<longrightarrow>
                  sourceFileReference d = (None, None, None, None, None)))"
proof -
  let ?db' = "snd (PATCH_document rt db i j (Parsed payload))"
  from ok obtain user :: SupabaseUser and ed and decision where
    ed: "ed \<in> set (businessDocuments db)" "idIs j (document_id ed)" and
    dec: "resolveSourceFileDecision payload (su_id user) = Inr decision" and
    rows: "businessDocuments ?db' =
             map (\<lambda>d. if document_id d = document_id ed
                       then documentUpdateOf rt db payload decision d else d)
                 (businessDocuments db)"
    by (rule PATCH_document_rows)
  note key = updated_rows_with_key[OF rows ed]
  have kept: "map sourceFileReference (businessDocuments ?db')
                = map sourceFileReference (businessDocuments db)"
    if "field payload ''sourceFileBucket'' = JUndefined
          \<and> field payload ''sourceFilePath'' = JUndefined
          \<and> field payload ''sourceFileContentType'' = JUndefined
          \<and> field payload ''sourceFileName'' = JUndefined
          \<and> field payload ''sourceFileSize'' = JUndefined"
  proof -
    from that dec have "decision = Ignore" by (simp add: decision_Ignore)
    then show ?thesis by (simp add: rows documentUpdateOf_columns)
  qed
  have cleared: "\<forall>d\<in>set (businessDocuments ?db'). idIs j (document_id d) \<longrightarrow>
                  sourceFileReference d = (None, None, None, None, None)"
    if "field payload ''sourceFileBucket'' \<in> {JNull, JString []}
          \<and> field payload ''sourceFilePath'' \<in> {JNull, JString []}"
  proof -
    from that dec have c: "decision = Clear" by (simp add: decision_Clear)
    show ?thesis
    proof (intro ballI impI)
      fix d assume "d \<in> set (businessDocuments ?db')" "idIs j (document_id d)"
      from key(2)[OF this] obtain d0 where "d = documentUpdateOf rt db payload decision d0"
        by blast
      with c show "sourceFileReference d = (None, None, None, None, None)"
        by (simp add: documentUpdateOf_columns)
    qed
  qed
  from kept cleared key(1) show ?thesis by blast
qed

theorem patch_source_file_frame_witness:
  "succeeded (fst (PATCH_document sampleRuntime sampleDatabase (Fin 1) (Fin 7)
       (Parsed (JObject [(''title'', JString ''Food permit'')]))))
   \<and> map sourceFileReference (businessDocuments (snd (PATCH_document sampleRuntime sampleDatabase
          (Fin 1) (Fin 7) (Parsed (JObject [(''title'', JString ''Food permit'')])))))
       = map sourceFileReference (businessDocuments sampleDatabase)
   \<and> sourceFileReference (hd (businessDocuments sampleDatabase))
       = (Some ''permit-files'', Some ''u1/a.pdf'', Some ''application/pdf'', Some ''a.pdf'',
          Some (Fin 10))
   \<and> succeeded (fst (PATCH_document sampleRuntime sampleDatabase (Fin 1) (Fin 7)
       (Parsed (JObject [(''title'', JString ''Food permit''), (''sourceFileBucket'', JString []),
                         (''sourceFilePath'', JNull)]))))
   \<and> sourceFileReference (hd (businessDocuments (snd (PATCH_document sampleRuntime sampleDatabase
          (Fin 1) (Fin 7)
          (Parsed (JObject [(''title'', JString ''Food permit''), (''sourceFileBucket'', JString []),
                            (''sourceFilePath'', JNull)]))))))
       = (None, None, None, None, None)"
proof -
  let ?P1 = "JObject [(''title'', JString ''Food permit'')]"
  let ?P2 = "JObject [(''title'', JString ''Food permit''), (''sourceFileBucket'', JString []),
                      (''sourceFilePath'', JNull)]"
  let ?rows2 = "businessDocuments (snd (PATCH_document sampleRuntime sampleDatabase (Fin 1) (Fin 7)
                  (Parsed ?P2)))"
  have ok1: "succeeded (fst (PATCH_document sampleRuntime sampleDatabase (Fin 1) (Fin 7) (Parsed ?P1)))"
    by code_simp
  have ok2: "succeeded (fst (PATCH_document sampleRuntime sampleDatabase (Fin 1) (Fin 7) (Parsed ?P2)))"
    by code_simp
  have before: "sourceFileReference (hd (businessDocuments sampleDatabase))
       = (Some ''permit-files'', Some ''u1/a.pdf'', Some ''application/pdf'', Some ''a.pdf'',
          Some (Fin 10))"
    by code_simp
  have none: "field ?P1 ''sourceFileBucket'' = JUndefined \<and> field ?P1 ''sourceFilePath'' = JUndefined
      \<and> field ?P1 ''sourceFileContentType'' = JUndefined \<and> field ?P1 ''sourceFileName'' = JUndefined
      \<and> field ?P1 ''sourceFileSize'' = JUndefined"
    by (simp add: field_def)
  have empty: "field ?P2 ''sourceFileBucket'' \<in> {JNull, JString []}
      \<and> field ?P2 ''sourceFilePath'' \<in> {JNull, JString []}"
    by (simp add: field_def)
  have first: "hd ?rows2 \<in> set ?rows2" "idIs (Fin 7) (document_id (hd ?rows2))"
    by code_simp+
  from patch_source_file_frame[OF ok1] none
  have a: "map sourceFileReference (businessDocuments (snd (PATCH_document sampleRuntime sampleDatabase
          (Fin 1) (Fin 7) (Parsed ?P1)))) = map sourceFileReference (businessDocuments sampleDatabase)"
    by blast
  from patch_source_file_frame[OF ok2] empty first
  have b: "sourceFileReference (hd ?rows2) = (None, None, None, None, None)"
    by blast
  from ok1 a before ok2 b show ?thesis by blast
qed

text \<open>
  C7. On a successful document update the updated document exists, and each of its
  columns title, permitNumber, documentCategory, status, startDate, endDate and autoRenew
  is what the payload's entry parses to, and each of its two links is what the payload's
  label resolves to, whatever the row held before. So an omitted startDate, endDate or
  permitNumber becomes null, an omitted status ACTIVE, an omitted documentCategory PERMIT,
  an omitted autoRenew false, and an omitted jurisdictionName or issuingAuthorityName
  clears the link. The raw extraction of every document is kept when the payload omits
  \<open>rawExtraction\<close>, and the source-file reference of every document is kept when the payload
  omits the five source-file fields.
\<close>

theorem patch_overwrites_columns:
  assumes ok: "succeeded (fst (PATCH_document rt db i j (Parsed payload)))"
  shows "(\<exists>d\<in>set (businessDocuments (snd (PATCH_document rt db i j (Parsed payload)))).
            idIs j (document_id d))
       \<and> (\<forall>d\<in>set (businessDocuments (snd (PATCH_document rt db i j (Parsed payload)))).
            idIs j (document_id d) \<longrightarrow>
              title d = trimmedString (field payload ''title'')
            \<and> permitNumber d = nonblankString (field payload ''permitNumber'')
            \<and> documentCategory d = normalizeCategory (field payload ''documentCategory'')
            \<and> status d = normalizeStatus (field payload ''status'')
            \<and> startDate d = parseDate (dateParse rt) (field payload ''startDate'')
            \<and> endDate d = parseDate (dateParse rt) (field payload ''endDate'')
            \<and> autoRenew d = (field payload ''autoRenew'' = JBool True)
            \<and> jurisdictionId d =
                (if trimmedString (field payload ''jurisdictionName'') = [] then None
                 else Some (lookup_id (fst (findOrCreate
                        (trimmedString (field payload ''jurisdictionName'')) (jurisdictions db)))))
            \<and> issuingAuthorityId d =
                (if trimmedString (field payload ''issuingAuthorityName'') = [] then None
                 else Some (lookup_id (fst (findOrCreate
                        (trimmedString (field payload ''issuingAuthorityName''))
                        (issuingAuthorities db)))))
            \<and> (field payload ''startDate'' = JUndefined \<longrightarrow> startDate d = None)
            \<and> (field payload ''endDate'' = JUndefined \<longrightarrow> endDate d = None)
            \<and> (field payload ''permitNumber'' = JUndefined \<longrightarrow> permitNumber d = None)
            \<and> (field payload ''status'' = JUndefined \<longrightarrow> status d = ACTIVE)
            \<and> (field payload ''documentCategory'' = JUndefined \<longrightarrow> documentCategory d = PERMIT)
            \<and> (field payload ''autoRenew'' = JUndefined \<longrightarrow> \<not> autoRenew d)
            \<and> (field payload ''jurisdictionName'' = JUndefined \<longrightarrow> jurisdictionId d = None)
            \<and> (field payload ''issuingAuthorityName'' = JUndefined \<longrightarrow> issuingAuthorityId d = None))
       \<and> (field payload ''rawExtraction'' = JUndefined \<longrightarrow>
            map rawExtractionJson (businessDocuments (snd (PATCH_document rt db i j (Parsed payload))))
              = map rawExtractionJson (businessDocuments db))
       \<and> (field payload ''sourceFileBucket'' = JUndefined
          \<and> field payload ''sourceFilePath'' = JUndefined
          \<and> field payload ''sourceFileContentType'' = JUndefined
          \<and> field payload ''sourceFileName'' = JUndefined
          \<and> field payload ''sourceFileSize'' = JUndefined \<longrightarrow>
            map sourceFileReference (businessDocuments (snd (PATCH_document rt db i j (Parsed payload))))
              = map sourceFileReference (businessDocuments db))"
proof -
  let ?db' = "snd (PATCH_document rt db i j (Parsed payload))"
  from ok obtain user :: SupabaseUser and ed and decision where
    ed: "ed \<in> set (businessDocuments db)" "idIs j (document_id ed)" and
    dec: "resolveSourceFileDecision payload (su_id user) = Inr decision" and
    rows: "businessDocuments ?db' =
             map (\<lambda>d. if document_id d = document_id ed
                       then documentUpdateOf rt db payload decision d else d)
                 (businessDocuments db)"
    by (rule PATCH_document_rows)
  note key = updated_rows_with_key[OF rows ed]
  have raw: "map rawExtractionJson (businessDocuments ?db') = map rawExtractionJson (businessDocuments db)"
    if "field payload ''rawExtraction'' = JUndefined"
    using that by (simp add: rows documentUpdateOf_columns)
  have kept: "map sourceFileReference (businessDocuments ?db')
                = map sourceFileReference (businessDocuments db)"
    if "field payload ''sourceFileBucket'' = JUndefined
          \<and> field payload ''sourceFilePath'' = JUndefined
          \<and> field payload ''sourceFileContentType'' = JUndefined
          \<and> field payload ''sourceFileName'' = JUndefined
          \<and> field payload ''sourceFileSize'' = JUndefined"
  proof -
    from that dec have "decision = Ignore" by (simp add: decision_Ignore)
    then show ?thesis by (simp add: rows documentUpdateOf_columns)
  qed
  have cols: "title d = trimmedString (field payload ''title'')
            \<and> permitNumber d = nonblankString (field payload ''permitNumber'')
            \<and> documentCategory d = normalizeCategory (field payload ''documentCategory'')
            \<and> status d = normalizeStatus (field payload ''status'')
            \<and> startDate d = parseDate (dateParse rt) (field payload ''startDate'')
            \<and> endDate d = parseDate (dateParse rt) (field payload ''endDate'')
            \<and> autoRenew d = (field payload ''autoRenew'' = JBool True)
            \<and> jurisdictionId d =
                (if trimmedString (field payload ''jurisdictionName'') = [] then None
                 else Some (lookup_id (fst (findOrCreate
                        (trimmedString (field payload ''jurisdictionName'')) (jurisdictions db)))))
            \<and> issuingAuthorityId d =
                (if trimmedString (field payload ''issuingAuthorityName'') = [] then None
                 else Some (lookup_id (fst (findOrCreate
                        (trimmedString (field payload ''issuingAuthorityName''))
                        (issuingAuthorities db)))))"
    if d: "d \<in> set (businessDocuments ?db')" "idIs j (document_id d)" for d
  proof -
    from key(2)[OF d] obtain d0 where "d = documentUpdateOf rt db payload decision d0"
      by blast
    then show ?thesis
      by (simp add: documentUpdateOf_columns documentUpdateOf_links optionalLookup_fst)
  qed
  have omitted: "(field payload ''startDate'' = JUndefined \<longrightarrow> startDate d = None)
            \<and> (field payload ''endDate'' = JUndefined \<longrightarrow> endDate d = None)
            \<and> (field payload ''permitNumber'' = JUndefined \<longrightarrow> permitNumber d = None)
            \<and> (field payload ''status'' = JUndefined \<longrightarrow> status d = ACTIVE)
            \<and> (field payload ''documentCategory'' = JUndefined \<longrightarrow> documentCategory d = PERMIT)
            \<and> (field payload ''autoRenew'' = JUndefined \<longrightarrow> \<not> autoRenew d)
            \<and> (field payload ''jurisdictionName'' = JUndefined \<longrightarrow> jurisdictionId d = None)
            \<and> (field payload ''issuingAuthorityName'' = JUndefined \<longrightarrow> issuingAuthorityId d = None)"
    if d: "d \<in> set (businessDocuments ?db')" "idIs j (document_id d)" for d
    using cols[OF d] by (simp add: omitted_defaults)
  from key(1) cols omitted raw kept show ?thesis by blast
qed

theorem patch_overwrites_columns_witness:
  "succeeded (fst (PATCH_document sampleRuntime sampleDatabase (Fin 1) (Fin 7)
       (Parsed (JObject [(''title'', JString ''Food permit'')]))))
   \<and> startDate (hd (businessDocuments sampleDatabase)) = Some 500
   \<and> status (hd (businessDocuments sampleDatabase)) = EXPIRED
   \<and> jurisdictionId (hd (businessDocuments sampleDatabase)) = Some 1
   \<and> startDate (hd (businessDocuments (snd (PATCH_document sampleRuntime sampleDatabase
          (Fin 1) (Fin 7) (Parsed (JObject [(''title'', JString ''Food permit'')])))))) = None
   \<and> endDate (hd (businessDocuments (snd (PATCH_document sampleRuntime sampleDatabase
          (Fin 1) (Fin 7) (Parsed (JObject [(''title'', JString ''Food permit'')])))))) = None
   \<and> permitNumber (hd (businessDocuments (snd (PATCH_document sampleRuntime sampleDatabase
          (Fin 1) (Fin 7) (Parsed (JObject [(''title'', JString ''Food permit'')])))))) = None
   \<and> status (hd (businessDocuments (snd (PATCH_document sampleRuntime sampleDatabase
          (Fin 1) (Fin 7) (Parsed (JObject [(''title'', JString ''Food permit'')])))))) = ACTIVE
   \<and> documentCategory (hd (businessDocuments (snd (PATCH_document sampleRuntime sampleDatabase
          (Fin 1) (Fin 7) (Parsed (JObject [(''title'', JString ''Food permit'')])))))) = PERMIT
   \<and> \<not> autoRenew (hd (businessDocuments (snd (PATCH_document sampleRuntime sampleDatabase
          (Fin 1) (Fin 7) (Parsed (JObject [(''title'', JString ''Food permit'')]))))))
   \<and> jurisdictionId (hd (businessDocuments (snd (PATCH_document sampleRuntime sampleDatabase
          (Fin 1) (Fin 7) (Parsed (JObject [(''title'', JString ''Food permit'')])))))) = None
   \<and> issuingAuthorityId (hd (businessDocuments (snd (PATCH_document sampleRuntime sampleDatabase
          (Fin 1) (Fin 7) (Parsed (JObject [(''title'', JString ''Food permit'')])))))) = None
   \<and> map rawExtractionJson (businessDocuments (snd (PATCH_document sampleRuntime sampleDatabase
          (Fin 1) (Fin 7) (Parsed (JObject [(''title'', JString ''Food permit'')])))))
       = map rawExtractionJson (businessDocuments sampleDatabase)"
proof -
  let ?P = "JObject [(''title'', JString ''Food permit'')]"
  let ?rows = "businessDocuments (snd (PATCH_document sampleRuntime sampleDatabase (Fin 1) (Fin 7)
                 (Parsed ?P)))"
  have ok: "succeeded (fst (PATCH_document sampleRuntime sampleDatabase (Fin 1) (Fin 7) (Parsed ?P)))"
    by code_simp
  have before: "startDate (hd (businessDocuments sampleDatabase)) = Some 500"
    "status (hd (businessDocuments sampleDatabase)) = EXPIRED"
    "jurisdictionId (hd (businessDocuments sampleDatabase)) = Some 1"
    by code_simp+
  have omitted: "field ?P ''startDate'' = JUndefined" "field ?P ''endDate'' = JUndefined"
    "field ?P ''permitNumber'' = JUndefined" "field ?P ''status'' = JUndefined"
    "field ?P ''documentCategory'' = JUndefined" "field ?P ''autoRenew'' = JUndefined"
    "field ?P ''jurisdictionName'' = JUndefined" "field ?P ''issuingAuthorityName'' = JUndefined"
    "field ?P ''rawExtraction'' = JUndefined"
    by (simp_all add: field_def)
  have first: "hd ?rows \<in> set ?rows" "idIs (Fin 7) (document_id (hd ?rows))"
    by code_simp+
  note t = patch_overwrites_columns[OF ok]
  from t first omitted
  have after: "startDate (hd ?rows) = None" "endDate (hd ?rows) = None"
    "permitNumber (hd ?rows) = None" "status (hd ?rows) = ACTIVE"
    "documentCategory (hd ?rows) = PERMIT" "\<not> autoRenew (hd ?rows)"
    "jurisdictionId (hd ?rows) = None" "issuingAuthorityId (hd ?rows) = None"
    by blast+
  from t omitted(9)
  have raw: "map rawExtractionJson ?rows = map rawExtractionJson (businessDocuments sampleDatabase)"
    by blast
  from ok before after raw show ?thesis by blast
qed

section \<open>Dates\<close>

text \<open>
  C6, as amended. For an input that is absent or not a string, for a blank string, and for
  a string that does not parse as a date, the date that the document routes store is null
  and the date that the extraction gateway derives is the empty string. For a string that
  parses, the stored date is the parsed date and the derived date is the first ten
  characters of its ISO form. Both functions are total: neither has an exception among its
  results. The start and end dates of the extraction response are these derived strings.
\<close>

theorem date_parsing_total:
  "(((\<forall>s. v \<noteq> JString s) \<or> (\<exists>s. v = JString s \<and> (trim s = [] \<or> parse (trim s) = None))) \<longrightarrow>
      parseDate parse v = None \<and> normalizeDate parse isoText v = [])
 \<and> (trim s \<noteq> [] \<and> parse (trim s) = Some d \<longrightarrow>
      parseDate parse (JString s) = Some d
    \<and> normalizeDate parse isoText (JString s) = take 10 (isoText d))
 \<and> field (extractedFields rt parsed m) ''startDate'' =
      JString (normalizeDate (dateParse rt) (toISOString rt)
        (coalesce [field parsed ''start_date'', field parsed ''startDate'',
                   field parsed ''issued_date'', field parsed ''issue_date'']))
 \<and> field (extractedFields rt parsed m) ''endDate'' =
      JString (normalizeDate (dateParse rt) (toISOString rt)
        (coalesce [field parsed ''end_date'', field parsed ''endDate'',
                   field parsed ''expiration_date'', field parsed ''expiry_date'']))"
proof -
  have a: "parseDate parse v = None \<and> normalizeDate parse isoText v = []"
    if "(\<forall>s. v \<noteq> JString s) \<or> (\<exists>s. v = JString s \<and> (trim s = [] \<or> parse (trim s) = None))"
    using that by (cases v) (auto simp: parseDate_def normalizeDate_def Let_def)
  have b: "parseDate parse (JString s) = Some d
         \<and> normalizeDate parse isoText (JString s) = take 10 (isoText d)"
    if "trim s \<noteq> [] \<and> parse (trim s) = Some d"
    using that by (simp add: parseDate_def normalizeDate_def Let_def)
  have c: "field (extractedFields rt parsed m) ''startDate'' =
      JString (normalizeDate (dateParse rt) (toISOString rt)
        (coalesce [field parsed ''start_date'', field parsed ''startDate'',
                   field parsed ''issued_date'', field parsed ''issue_date'']))"
    by (simp add: extractedFields_def field_def)
  have e: "field (extractedFields rt parsed m) ''endDate'' =
      JString (normalizeDate (dateParse rt) (toISOString rt)
        (coalesce [field parsed ''end_date'', field parsed ''endDate'',
                   field parsed ''expiration_date'', field parsed ''expiry_date'']))"
    by (simp add: extractedFields_def field_def)
  from a b c e show ?thesis by blast
qed

theorem date_parsing_total_witness:
  "parseDate (dateParse sampleRuntime) (JString ''not a date'') = None
   \<and> parseDate (dateParse sampleRuntime) (JString ''   '') = None
   \<and> parseDate (dateParse sampleRuntime) (JNumber (Fin 5)) = None
   \<and> parseDate (dateParse sampleRuntime) JUndefined = None
   \<and> normalizeDate (dateParse sampleRuntime) (toISOString sampleRuntime) (JString ''not a date'') = []
   \<and> parseDate (dateParse sampleRuntime) (JString '' 2025-01-01 '') = Some 500
   \<and> normalizeDate (dateParse sampleRuntime) (toISOString sampleRuntime) (JString '' 2025-01-01 '')
       = ''2025-01-01''"
proof -
  let ?p = "dateParse sampleRuntime" and ?i = "toISOString sampleRuntime"
  note t = date_parsing_total[where parse="?p" and isoText="?i"]
  have h1: "\<exists>s. JString ''not a date'' = JString s \<and> (trim s = [] \<or> ?p (trim s) = None)"
  proof (intro exI conjI)
    show "JString ''not a date'' = JString ''not a date''" by simp
    show "trim ''not a date'' = [] \<or> ?p (trim ''not a date'') = None" by code_simp
  qed
  have h2: "\<exists>s. JString ''   '' = JString s \<and> (trim s = [] \<or> ?p (trim s) = None)"
  proof (intro exI conjI)
    show "JString ''   '' = JString ''   ''" by simp
    show "trim ''   '' = [] \<or> ?p (trim ''   '') = None" by code_simp
  qed
  have h3: "\<forall>s. JNumber (Fin 5) \<noteq> JString s" "\<forall>s. JUndefined \<noteq> JString s" by simp_all
  have h4: "trim '' 2025-01-01 '' \<noteq> [] \<and> ?p (trim '' 2025-01-01 '') = Some 500" by code_simp
  have day: "take 10 (?i 500) = ''2025-01-01''" by code_simp
  from t[where v="JString ''not a date''"] h1
  have g1: "parseDate ?p (JString ''not a date'') = None"
    "normalizeDate ?p ?i (JString ''not a date'') = []" by blast+
  from t[where v="JString ''   ''"] h2 have g2: "parseDate ?p (JString ''   '') = None" by blast
  from t[where v="JNumber (Fin 5)"] h3(1) have g3: "parseDate ?p (JNumber (Fin 5)) = None" by blast
  from t[where v="JUndefined"] h3(2) have g4: "parseDate ?p JUndefined = None" by blast
  from t[where s="'' 2025-01-01 ''" and d=500] h4
  have g5: "parseDate ?p (JString '' 2025-01-01 '') = Some 500"
    "normalizeDate ?p ?i (JString '' 2025-01-01 '') = take 10 (?i 500)" by blast+
  from g1 g2 g3 g4 g5 day show ?thesis by simp
qed

text \<open>
  C6 as stated fails for the extraction gateway: the date it derives from a string that
  does not parse is the empty string, not null.
\<close>

theorem derived_date_counterexample:
  "field (extractedFields sampleRuntime (JObject [(''start_date'', JString ''not a date'')])
            sampleMeta) ''startDate'' = JString []
   \<and> field (extractedFields sampleRuntime (JObject [(''start_date'', JString ''not a date'')])
            sampleMeta) ''startDate'' \<noteq> JNull
   \<and> normalizeDate (dateParse sampleRuntime) (toISOString sampleRuntime) JUndefined = []"
  by code_simp

section \<open>File relay\<close>







section \<open>Company update\<close>








end
